theory Spec2Isabelle
  imports Complex_Main "HOL-Library.AList"
begin

section \<open>Python values, classes and errors\<close>

text \<open>
  The module \<^verbatim>\<open>smqtk_core/configuration.py\<close> works on JSON-compliant dictionaries, on
  class objects and on instances. A class object is referred to by its identity
  (\<open>cid\<close>), so that two classes with the same \<^verbatim>\<open>__module__\<close> and \<^verbatim>\<open>__name__\<close> stay
  different objects; an instance carries its own identity, its class and its attribute
  dictionary. A dictionary is an association list in insertion order, with string keys
  (the keys of a JSON object). A floating-point number is carried as the exact rational
  value of the double it is, so that two literals denoting the same double are the same
  value and numbers compare as Python compares them; the module only stores and compares
  numbers, and NaN and the infinities are not values of the model.
\<close>

type_synonym cid = nat

datatype pyval =
    PNone
  | PBool bool
  | PInt int
  | PFloat rat
  | PStr string
  | PList "pyval list"
  | PDict "(string \<times> pyval) list"
  | PCls cid
  | PInst nat cid "(string \<times> pyval) list"

type_synonym pydict = "(string \<times> pyval) list"

text \<open>
  The exceptions of the module, each \<^verbatim>\<open>ValueError\<close> and \<^verbatim>\<open>AssertionError\<close> told apart by
  the message the source formats, with the values the message is formatted from (the
  message of \<open>NotConfigurableInstance\<close> and of \<open>InvalidConfigurableType\<close> shows the
  type of the value carried, the one of \<open>NotDescendedFromConfigurable\<close> the
  \<^verbatim>\<open>__name__\<close> of the class). \<^verbatim>\<open>list(conf_type_options)\<close> lists a Python \<^verbatim>\<open>set\<close>, whose
  order is not fixed, so the options are a set; \<^verbatim>\<open>list(type_map)\<close> lists the keys of a
  dictionary, in insertion order.
\<close>

datatype value_error =
    MissingType
  | UnsetType "string set"
  | NoConfigBlock pyval "string set"
  | UnknownImplementation pyval "string list"
  | NotConfigurableInstance pyval

datatype assertion_error =
    InvalidConfigurableType pyval
  | NotDescendedFromConfigurable string

datatype error =
    ValueError value_error
  | AssertionError assertion_error
  | TypeError
  | KeyError pyval
  | AttributeError
  | Raised string

text \<open>
  A parameter of \<^verbatim>\<open>inspect.signature\<close>: its name, its kind and its default
  (\<open>None\<close> for \<^verbatim>\<open>Parameter.empty\<close>).
\<close>

datatype param_kind =
  POSITIONAL_ONLY | POSITIONAL_OR_KEYWORD | VAR_POSITIONAL | KEYWORD_ONLY | VAR_KEYWORD

record param =
  pname :: string
  pkind :: param_kind
  pdefault :: "pyval option"

text \<open>
  The state the calls thread: the identity of the next object created, and the log of
  the \<^verbatim>\<open>from_config\<close> calls and constructor calls made so far.
\<close>

datatype event =
    FromConfigCall cid pyval "pyval list"
  | InitCall cid pydict

record world =
  next_oid :: nat
  trace :: "event list"

text \<open>
  What the module reads of a class:
  \<^item> \<open>cls_module\<close>, \<open>cls_name\<close>: \<^verbatim>\<open>__module__\<close> and \<^verbatim>\<open>__name__\<close>;
  \<^item> \<open>configurable\<close>: \<^verbatim>\<open>issubclass(cls, Configurable)\<close>;
  \<^item> \<open>init_sig\<close>: the parameters of \<^verbatim>\<open>inspect.signature(cls.__init__)\<close>, the receiver
    included, when \<^verbatim>\<open>cls.__init__\<close> is a Python function; \<open>None\<close> when the lookup ends at
    \<^verbatim>\<open>object.__init__\<close>, which is neither a \<^verbatim>\<open>FunctionType\<close> nor a \<^verbatim>\<open>MethodType\<close>;
  \<^item> \<open>init_body\<close>: what \<^verbatim>\<open>cls(**kwargs)\<close> does, the binding of the keywords and the body
    of the constructor: the attributes of the new instance, or the exception raised;
  \<^item> \<open>default_config_override\<close>: the outcome of the class's own \<^verbatim>\<open>get_default_config\<close>
    when it overrides the one of \<^verbatim>\<open>Configurable\<close>;
  \<^item> \<open>from_config_override\<close>: the class's own \<^verbatim>\<open>from_config\<close> when it overrides the
    one of \<^verbatim>\<open>Configurable\<close>, from the configuration argument, the further positional
    arguments and the state; it returns the instance together with the dictionary
    object it was given as that object is after the call (a Python method can assign
    into the caller's dictionary);
  \<^item> \<open>get_config_body\<close>: \<^verbatim>\<open>get_config\<close>, from the attributes of the instance.
\<close>

record pycls =
  cls_module :: string
  cls_name :: string
  configurable :: bool
  init_sig :: "param list option"
  init_body :: "pydict \<Rightarrow> error + pydict"
  default_config_override :: "(error + pyval) option"
  from_config_override ::
    "(pyval \<Rightarrow> pyval list \<Rightarrow> world \<Rightarrow> (error + pyval \<times> pyval) \<times> world) option"
  get_config_body :: "pydict \<Rightarrow> error + pyval"

type_synonym classes = "cid \<Rightarrow> pycls"

text \<open>
  \<^verbatim>\<open>isinstance(v, type)\<close>, and \<^verbatim>\<open>v.__class__\<close> when it is a class of the program; the
  class of a value of a built-in type and the metaclass of a class object are not, and
  do not descend from \<^verbatim>\<open>Configurable\<close>.
\<close>

fun isinstance_type :: "pyval \<Rightarrow> bool" where
  "isinstance_type (PCls _) = True"
| "isinstance_type _ = False"

fun class_of :: "pyval \<Rightarrow> cid option" where
  "class_of (PInst _ c _) = Some c"
| "class_of _ = None"

definition issubclass_Configurable :: "classes \<Rightarrow> cid option \<Rightarrow> bool" where
  "issubclass_Configurable CT c_class =
     (case c_class of None \<Rightarrow> False | Some c \<Rightarrow> configurable (CT c))"

section \<open>Type keys and resolution\<close>

text \<open>
  \<^verbatim>\<open>_type_to_key(t)\<close> is \<^verbatim>\<open>f"{t.__module__}.{t.__name__}"\<close>. Of the values above only a
  class object has a \<^verbatim>\<open>__name__\<close>; on any other value the attribute lookup raises.
\<close>

definition cls_key :: "pycls \<Rightarrow> string" where
  "cls_key k = cls_module k @ ''.'' @ cls_name k"

fun type_to_key :: "classes \<Rightarrow> pyval \<Rightarrow> error + string" where
  "type_to_key CT (PCls c) = Inr (cls_key (CT c))"
| "type_to_key CT _ = Inl AttributeError"

text \<open>
  \<^verbatim>\<open>dict(map(lambda t: (_type_to_key(t), t), type_iter))\<close>: the pairs are stored one after
  the other; storing under a key that is present replaces its value and keeps its place.
\<close>

fun build_type_map :: "classes \<Rightarrow> pydict \<Rightarrow> pyval list \<Rightarrow> error + pydict" where
  "build_type_map CT m [] = Inr m"
| "build_type_map CT m (t # ts) =
     (case type_to_key CT t of
        Inl e \<Rightarrow> Inl e
      | Inr k \<Rightarrow> build_type_map CT (AList.update k t m) ts)"

text \<open>Lists and dictionaries are unhashable: testing them for membership in a set or a
  dictionary raises \<^verbatim>\<open>TypeError\<close>.\<close>

fun hashable :: "pyval \<Rightarrow> bool" where
  "hashable (PList _) = False"
| "hashable (PDict _) = False"
| "hashable _ = True"

text \<open>\<^verbatim>\<open>v in keys\<close> for a collection of string keys: only an equal string is a member.
  \<^verbatim>\<open>d[v]\<close> raises \<^verbatim>\<open>KeyError\<close> when \<open>v\<close> is not a key.\<close>

fun key_member :: "pyval \<Rightarrow> string set \<Rightarrow> bool" where
  "key_member (PStr s) ks = (s \<in> ks)"
| "key_member _ ks = False"

fun key_lookup :: "pydict \<Rightarrow> pyval \<Rightarrow> error + pyval" where
  "key_lookup d (PStr s) =
     (case map_of d s of None \<Rightarrow> Inl (KeyError (PStr s)) | Some v \<Rightarrow> Inr v)"
| "key_lookup d v = Inl (KeyError v)"

definition cls_conf_from_config_dict ::
  "classes \<Rightarrow> pydict \<Rightarrow> pyval list \<Rightarrow> error + pyval \<times> pyval" where
  "cls_conf_from_config_dict CT config type_iter =
     (case map_of config ''type'' of
        None \<Rightarrow> Inl (ValueError MissingType)
      | Some conf_type_name \<Rightarrow>
          (case build_type_map CT [] type_iter of
             Inl e \<Rightarrow> Inl e
           | Inr type_map \<Rightarrow>
               (let conf_type_options = set (map fst config) - {''type''} in
                if conf_type_name = PNone then
                  Inl (ValueError (UnsetType conf_type_options))
                else if \<not> hashable conf_type_name then Inl TypeError
                else if \<not> key_member conf_type_name conf_type_options then
                  Inl (ValueError (NoConfigBlock conf_type_name conf_type_options))
                else if \<not> key_member conf_type_name (set (map fst type_map)) then
                  Inl (ValueError (UnknownImplementation conf_type_name (map fst type_map)))
                else
                  (case key_lookup type_map conf_type_name of
                     Inl e \<Rightarrow> Inl e
                   | Inr cls \<Rightarrow>
                       (case key_lookup config conf_type_name of
                          Inl e \<Rightarrow> Inl e
                        | Inr conf \<Rightarrow> Inr (cls, conf))))))"


section \<open>The Configurable interface\<close>

text \<open>
  \<^verbatim>\<open>_param_map_func\<close>: the loop over \<^verbatim>\<open>sig.parameters.items()\<close>, with \<open>pmap\<close> the
  dictionary built so far. A parameter named \<^verbatim>\<open>self\<close> is skipped, a parameter of one of
  the three kept kinds is stored with its default, or with \<^verbatim>\<open>None\<close> when it has none.
\<close>

definition keep_kinds :: "param_kind set" where
  "keep_kinds = {POSITIONAL_ONLY, POSITIONAL_OR_KEYWORD, KEYWORD_ONLY}"

fun param_map_loop :: "param list \<Rightarrow> pydict \<Rightarrow> pydict" where
  "param_map_loop [] pmap = pmap"
| "param_map_loop (p # ps) pmap =
     (if pname p = ''self'' then param_map_loop ps pmap
      else if pkind p \<in> keep_kinds then
        param_map_loop ps
          (AList.update (pname p) (case pdefault p of None \<Rightarrow> PNone | Some dflt \<Rightarrow> dflt) pmap)
      else param_map_loop ps pmap)"

definition param_map_func :: "param list \<Rightarrow> pydict" where
  "param_map_func sig = param_map_loop sig []"

text \<open>\<^verbatim>\<open>Configurable.get_default_config\<close>, and the call \<^verbatim>\<open>cls.get_default_config()\<close>, which
  runs the class's own method when there is one.\<close>

definition get_default_config :: "pycls \<Rightarrow> pydict" where
  "get_default_config cls =
     (case init_sig cls of Some sig \<Rightarrow> param_map_func sig | None \<Rightarrow> [])"

definition call_get_default_config :: "pycls \<Rightarrow> error + pyval" where
  "call_get_default_config cls =
     (case default_config_override cls of
        Some r \<Rightarrow> r
      | None \<Rightarrow> Inr (PDict (get_default_config cls)))"

text \<open>
  Modelled from the spec: \<^verbatim>\<open>smqtk_core.dict.merge_dict\<close> is imported by the module and is
  not among the sources. The spec describes it as a utility that deep-merges two
  mappings, the second argument's keys taking precedence over the first's on conflict,
  recursing into nested mappings, without mutating either input. The result is a new
  dictionary: the entries of \<open>a\<close>, each entry of \<open>b\<close> stored on top, and where both hold a
  mapping under the same key, the merge of the two.
\<close>

fun merge_dict :: "pydict \<Rightarrow> pydict \<Rightarrow> pydict" where
  "merge_dict a [] = a"
| "merge_dict a ((k, PDict y) # b) =
     (case map_of a k of
        Some (PDict x) \<Rightarrow> merge_dict (AList.update k (PDict (merge_dict x y)) a) b
      | _ \<Rightarrow> merge_dict (AList.update k (PDict y) a) b)"
| "merge_dict a ((k, v) # b) = merge_dict (AList.update k v a) b"

text \<open>The call \<^verbatim>\<open>merge_dict(a, b)\<close> on two values: the spec defines it on mappings.\<close>

fun call_merge_dict :: "pyval \<Rightarrow> pyval \<Rightarrow> error + pyval" where
  "call_merge_dict (PDict a) (PDict b) = Inr (PDict (merge_dict a b))"
| "call_merge_dict _ _ = Inl TypeError"

text \<open>The truth value of a value, as \<^verbatim>\<open>if merge_default:\<close> takes it.\<close>

fun truthy :: "pyval \<Rightarrow> bool" where
  "truthy PNone = False"
| "truthy (PBool b) = b"
| "truthy (PInt i) = (i \<noteq> 0)"
| "truthy (PFloat r) = (r \<noteq> 0)"
| "truthy (PStr s) = (s \<noteq> [])"
| "truthy (PList xs) = (xs \<noteq> [])"
| "truthy (PDict d) = (d \<noteq> [])"
| "truthy (PCls _) = True"
| "truthy (PInst _ _ _) = True"

text \<open>
  \<^verbatim>\<open>cls(**config_dict)\<close>: the argument after \<^verbatim>\<open>**\<close> has to be a mapping; the call is
  logged, and a new object is created when the constructor returns.
\<close>

definition log_event :: "event \<Rightarrow> world \<Rightarrow> world" where
  "log_event e w = w\<lparr>trace := trace w @ [e]\<rparr>"

definition construct :: "cid \<Rightarrow> pycls \<Rightarrow> pyval \<Rightarrow> world \<Rightarrow> (error + pyval) \<times> world" where
  "construct c cls config_dict w =
     (case config_dict of
        PDict kwargs \<Rightarrow>
          (let w1 = log_event (InitCall c kwargs) w in
           case init_body cls kwargs of
             Inl e \<Rightarrow> (Inl e, w1)
           | Inr attrs \<Rightarrow> (Inr (PInst (next_oid w1) c attrs), w1\<lparr>next_oid := Suc (next_oid w1)\<rparr>))
      | _ \<Rightarrow> (Inl TypeError, w))"

text \<open>
  \<^verbatim>\<open>Configurable.from_config(cls, config_dict, merge_default=True)\<close>, called with the
  positional arguments \<open>args\<close> after \<open>config_dict\<close>: none leaves \<open>merge_default\<close> at its
  default, one sets it, more are too many. The assignment to \<open>config_dict\<close> rebinds the
  local name, so the dictionary of the caller is returned as it was given.
\<close>

definition from_config_body ::
  "cid \<Rightarrow> pycls \<Rightarrow> pyval \<Rightarrow> bool \<Rightarrow> world \<Rightarrow> (error + pyval \<times> pyval) \<times> world" where
  "from_config_body c cls config_dict merge_default w =
     (case (if merge_default then
              (case call_get_default_config cls of
                 Inl e \<Rightarrow> Inl e
               | Inr dflt \<Rightarrow> call_merge_dict dflt config_dict)
            else Inr config_dict) of
        Inl e \<Rightarrow> (Inl e, w)
      | Inr merged \<Rightarrow>
          (case construct c cls merged w of
             (Inl e, w') \<Rightarrow> (Inl e, w')
           | (Inr inst, w') \<Rightarrow> (Inr (inst, config_dict), w')))"

fun from_config ::
  "cid \<Rightarrow> pycls \<Rightarrow> pyval \<Rightarrow> pyval list \<Rightarrow> world \<Rightarrow> (error + pyval \<times> pyval) \<times> world" where
  "from_config c cls config_dict [] w = from_config_body c cls config_dict True w"
| "from_config c cls config_dict [merge_default] w =
     from_config_body c cls config_dict (truthy merge_default) w"
| "from_config c cls config_dict _ w = (Inl TypeError, w)"

text \<open>The call \<^verbatim>\<open>cls.from_config(config, *args)\<close>: it is logged, and runs the class's own
  method when there is one.\<close>

definition call_from_config ::
  "cid \<Rightarrow> pycls \<Rightarrow> pyval \<Rightarrow> pyval list \<Rightarrow> world \<Rightarrow> (error + pyval \<times> pyval) \<times> world" where
  "call_from_config c cls config args w =
     (let w1 = log_event (FromConfigCall c config args) w in
      case from_config_override cls of
        None \<Rightarrow> from_config c cls config args w1
      | Some f \<Rightarrow> f config args w1)"

text \<open>The call \<^verbatim>\<open>v.get_config()\<close>: only an instance of a class of the program has the
  method.\<close>

fun call_get_config :: "classes \<Rightarrow> pyval \<Rightarrow> error + pyval" where
  "call_get_config CT (PInst _ c attrs) = get_config_body (CT c) attrs"
| "call_get_config CT _ = Inl AttributeError"

section \<open>The helper functions\<close>

text \<open>
  \<^verbatim>\<open>make_default_config\<close>: the loop over \<^verbatim>\<open>configurable_iter\<close>, with \<open>d\<close> the dictionary
  built so far. The assertion is \<^verbatim>\<open>isinstance(cls, type) and issubclass(cls, Configurable)\<close>;
  the assignment evaluates \<^verbatim>\<open>cls.get_default_config()\<close> first and the key second.
  Assertions are modelled as the interpreter runs them by default (without \<^verbatim>\<open>-O\<close>).
\<close>

fun is_configurable_type :: "classes \<Rightarrow> pyval \<Rightarrow> bool" where
  "is_configurable_type CT (PCls c) = configurable (CT c)"
| "is_configurable_type CT _ = False"

fun default_config_of :: "classes \<Rightarrow> pyval \<Rightarrow> error + pyval" where
  "default_config_of CT (PCls c) = call_get_default_config (CT c)"
| "default_config_of CT _ = Inl AttributeError"

fun make_default_config_loop :: "classes \<Rightarrow> pydict \<Rightarrow> pyval list \<Rightarrow> error + pydict" where
  "make_default_config_loop CT d [] = Inr d"
| "make_default_config_loop CT d (cls # rest) =
     (if \<not> is_configurable_type CT cls then
        Inl (AssertionError (InvalidConfigurableType cls))
      else
        (case default_config_of CT cls of
           Inl e \<Rightarrow> Inl e
         | Inr dflt \<Rightarrow>
             (case type_to_key CT cls of
                Inl e \<Rightarrow> Inl e
              | Inr k \<Rightarrow> make_default_config_loop CT (AList.update k dflt d) rest)))"

definition make_default_config :: "classes \<Rightarrow> pyval list \<Rightarrow> error + pyval" where
  "make_default_config CT configurable_iter =
     (case make_default_config_loop CT [(''type'', PNone)] configurable_iter of
        Inl e \<Rightarrow> Inl e
      | Inr d \<Rightarrow> Inr (PDict d))"

text \<open>\<^verbatim>\<open>cls_conf_to_config_dict\<close>: the dictionary display stores its two entries in
  order.\<close>

definition cls_conf_to_config_dict :: "classes \<Rightarrow> pyval \<Rightarrow> pyval \<Rightarrow> error + pyval" where
  "cls_conf_to_config_dict CT cls conf =
     (case type_to_key CT cls of
        Inl e \<Rightarrow> Inl e
      | Inr ckey \<Rightarrow> Inr (PDict (AList.update ckey conf [(''type'', PStr ckey)])))"

definition to_config_dict :: "classes \<Rightarrow> pyval \<Rightarrow> error + pyval" where
  "to_config_dict CT c_inst =
     (let c_class = class_of c_inst in
      if isinstance_type c_inst \<or> \<not> issubclass_Configurable CT c_class then
        Inl (ValueError (NotConfigurableInstance c_inst))
      else
        (case c_class of
           None \<Rightarrow> Inl TypeError
         | Some c \<Rightarrow>
             (case call_get_config CT c_inst of
                Inl e \<Rightarrow> Inl e
              | Inr conf \<Rightarrow> cls_conf_to_config_dict CT (PCls c) conf)))"

text \<open>\<^verbatim>\<open>from_config_dict\<close>: \<^verbatim>\<open>issubclass\<close> raises \<^verbatim>\<open>TypeError\<close> on a first argument that is
  not a class.\<close>

definition from_config_dict ::
  "classes \<Rightarrow> pydict \<Rightarrow> pyval list \<Rightarrow> pyval list \<Rightarrow> world \<Rightarrow> (error + pyval \<times> pyval) \<times> world"
  where
  "from_config_dict CT config type_iter args w =
     (case cls_conf_from_config_dict CT config type_iter of
        Inl e \<Rightarrow> (Inl e, w)
      | Inr (cls, cls_conf) \<Rightarrow>
          (case cls of
             PCls c \<Rightarrow>
               if \<not> configurable (CT c) then
                 (Inl (AssertionError (NotDescendedFromConfigurable (cls_name (CT c)))), w)
               else call_from_config c (CT c) cls_conf args w
           | _ \<Rightarrow> (Inl TypeError, w)))"


section \<open>Equality of values and the round trip\<close>

text \<open>
  Python's \<^verbatim>\<open>==\<close> on the values above: numbers (booleans included) compare by value,
  lists element by element, dictionaries by their key sets and the values under each
  key, whatever the order; class objects and instances of classes without \<^verbatim>\<open>__eq__\<close>
  compare by identity; values of different kinds are unequal.
\<close>

fun py_num :: "pyval \<Rightarrow> rat option" where
  "py_num (PBool b) = Some (if b then 1 else 0)"
| "py_num (PInt i) = Some (of_int i)"
| "py_num (PFloat r) = Some r"
| "py_num _ = None"

function (sequential) py_eq :: "pyval \<Rightarrow> pyval \<Rightarrow> bool" where
  "py_eq PNone PNone = True"
| "py_eq (PStr s) (PStr t) = (s = t)"
| "py_eq (PCls c) (PCls d) = (c = d)"
| "py_eq (PInst i _ _) (PInst j _ _) = (i = j)"
| "py_eq (PList xs) (PList ys) =
     (length xs = length ys \<and> list_all (\<lambda>(x, y). py_eq x y) (zip xs ys))"
| "py_eq (PDict xs) (PDict ys) =
     (set (map fst xs) = set (map fst ys) \<and>
      list_all (\<lambda>k. case (map_of xs k, map_of ys k) of
                      (Some v, Some w) \<Rightarrow> py_eq v w
                    | _ \<Rightarrow> False) (map fst xs))"
| "py_eq a b = (case (py_num a, py_num b) of (Some x, Some y) \<Rightarrow> x = y | _ \<Rightarrow> False)"
  by pat_completeness auto
termination
proof -
  have looked_up: "size v \<le> size_list (size_prod (\<lambda>_. 0) size) xs"
    if "Some v = map_of xs k" for xs :: pydict and k v
    using that by (induction xs) (auto split: if_splits)
  show ?thesis
    by (relation "measure (\<lambda>(a, b). size a)")
      (auto dest!: set_zip_leftD looked_up simp: size_list_estimation' less_Suc_eq_le)
qed

text \<open>
  The chain of the round-trip property (\<^verbatim>\<open>inst\<close>, \<^verbatim>\<open>inst2\<close> and \<^verbatim>\<open>inst4\<close> of
  \<^verbatim>\<open>configuration_test_helper\<close>): the configuration \<open>c1\<close> of \<open>x\<close>, the instance \<open>y\<close>
  built from it by the \<^verbatim>\<open>from_config\<close> of the class of \<open>x\<close>, its configuration \<open>c2\<close>, the
  instance \<open>z\<close> built from that, and its configuration \<open>c3\<close>. The comparisons come
  after the calls and \<^verbatim>\<open>from_config\<close> is handed the dictionary object itself, so \<open>c1\<close>
  and \<open>c2\<close> are returned as the calls leave them.
\<close>

definition round_trip :: "classes \<Rightarrow> pyval \<Rightarrow> world \<Rightarrow> error + pyval \<times> pyval \<times> pyval" where
  "round_trip CT x w =
     (case class_of x of
        None \<Rightarrow> Inl AttributeError
      | Some X \<Rightarrow>
     (case call_get_config CT x of
        Inl e \<Rightarrow> Inl e
      | Inr c1 \<Rightarrow>
     (case call_from_config X (CT X) c1 [] w of
        (Inl e, _) \<Rightarrow> Inl e
      | (Inr (y, c1'), w1) \<Rightarrow>
     (case call_get_config CT y of
        Inl e \<Rightarrow> Inl e
      | Inr c2 \<Rightarrow>
     (case call_from_config X (CT X) c2 [] w1 of
        (Inl e, _) \<Rightarrow> Inl e
      | (Inr (z, c2'), w2) \<Rightarrow>
     (case call_get_config CT z of
        Inl e \<Rightarrow> Inl e
      | Inr c3 \<Rightarrow> Inr (c1', c2', c3)))))))"

section \<open>Classes\<close>

text \<open>
  A class in the pattern of \<^verbatim>\<open>T1\<close> of the tests and of \<^verbatim>\<open>SimpleConfig\<close> of the docstrings:
  it descends from \<^verbatim>\<open>Configurable\<close> and overrides neither class method; its constructor
  takes \<^verbatim>\<open>self\<close> and positional-or-keyword parameters \<open>ps\<close> (name and default) and
  stores each argument under the parameter's name; \<^verbatim>\<open>get_config\<close> returns these
  attributes under the same names. Called with keywords, the constructor raises
  \<^verbatim>\<open>TypeError\<close> on a keyword that names no parameter and on a parameter without default
  that is not given.
\<close>

definition self_param :: param where
  "self_param = \<lparr>pname = ''self'', pkind = POSITIONAL_OR_KEYWORD, pdefault = None\<rparr>"

definition kw_param :: "string \<times> pyval option \<Rightarrow> param" where
  "kw_param nd = \<lparr>pname = fst nd, pkind = POSITIONAL_OR_KEYWORD, pdefault = snd nd\<rparr>"

fun bind_each :: "(string \<times> pyval option) list \<Rightarrow> pydict \<Rightarrow> error + pydict" where
  "bind_each [] kwargs = Inr []"
| "bind_each ((n, dflt) # ps) kwargs =
     (case (case map_of kwargs n of Some v \<Rightarrow> Some v | None \<Rightarrow> dflt) of
        None \<Rightarrow> Inl TypeError
      | Some v \<Rightarrow> (case bind_each ps kwargs of Inl e \<Rightarrow> Inl e | Inr r \<Rightarrow> Inr ((n, v) # r)))"

definition bind_keywords :: "(string \<times> pyval option) list \<Rightarrow> pydict \<Rightarrow> error + pydict" where
  "bind_keywords ps kwargs =
     (if \<not> set (map fst kwargs) \<subseteq> set (map fst ps) then Inl TypeError
      else bind_each ps kwargs)"

fun read_attrs :: "string list \<Rightarrow> pydict \<Rightarrow> error + pydict" where
  "read_attrs [] attrs = Inr []"
| "read_attrs (n # ns) attrs =
     (case map_of attrs n of
        None \<Rightarrow> Inl AttributeError
      | Some v \<Rightarrow> (case read_attrs ns attrs of Inl e \<Rightarrow> Inl e | Inr r \<Rightarrow> Inr ((n, v) # r)))"

definition echo_get_config :: "string list \<Rightarrow> pydict \<Rightarrow> error + pyval" where
  "echo_get_config ns attrs =
     (case read_attrs ns attrs of Inl e \<Rightarrow> Inl e | Inr d \<Rightarrow> Inr (PDict d))"

definition echo_class :: "string \<Rightarrow> string \<Rightarrow> (string \<times> pyval option) list \<Rightarrow> pycls" where
  "echo_class m n ps =
     \<lparr>cls_module = m, cls_name = n, configurable = True,
      init_sig = Some (self_param # map kw_param ps),
      init_body = bind_keywords ps,
      default_config_override = None,
      from_config_override = None,
      get_config_body = echo_get_config (map fst ps)\<rparr>"

text \<open>
  A class that only declares a constructor, as the classes \<^verbatim>\<open>T\<close> local to the tests of
  \<^verbatim>\<open>get_default_config\<close>: it descends from \<^verbatim>\<open>Configurable\<close> and is abstract, so calling it
  raises \<^verbatim>\<open>TypeError\<close>. A class that does not descend from \<^verbatim>\<open>Configurable\<close> and declares
  nothing, as \<^verbatim>\<open>NotConfigurable\<close> of the tests.
\<close>

definition abstract_class :: "string \<Rightarrow> string \<Rightarrow> param list option \<Rightarrow> pycls" where
  "abstract_class m n sig =
     \<lparr>cls_module = m, cls_name = n, configurable = True,
      init_sig = sig,
      init_body = (\<lambda>kwargs. Inl TypeError),
      default_config_override = None,
      from_config_override = None,
      get_config_body = (\<lambda>attrs. Inl AttributeError)\<rparr>"

definition plain_class :: "string \<Rightarrow> string \<Rightarrow> pycls" where
  "plain_class m n =
     \<lparr>cls_module = m, cls_name = n, configurable = False,
      init_sig = None,
      init_body = (\<lambda>kwargs. if kwargs = [] then Inr [] else Inl TypeError),
      default_config_override = None,
      from_config_override = None,
      get_config_body = (\<lambda>attrs. Inl AttributeError)\<rparr>"

subsection \<open>The classes of the tests\<close>

definition tests_module :: string where
  "tests_module = ''tests.test_configuration''"

definition T1_id :: cid where "T1_id = 1"
definition T2_id :: cid where "T2_id = 2"
definition T_abc_id :: cid where "T_abc_id = 3"
definition T_kwonly_id :: cid where "T_kwonly_id = 4"
definition NotConfigurable_id :: cid where "NotConfigurable_id = 5"
definition Opts_id :: cid where "Opts_id = 6"

text \<open>\<^verbatim>\<open>T1\<close>: \<^verbatim>\<open>__init__(self, foo=1, bar='baz')\<close>.\<close>

definition T1_cls :: pycls where
  "T1_cls = echo_class tests_module ''T1''
     [(''foo'', Some (PInt 1)), (''bar'', Some (PStr ''baz''))]"

text \<open>
  \<^verbatim>\<open>T2\<close>: \<^verbatim>\<open>__init__(self, child=T1(), alpha=0.0001, beta='default')\<close>. The default of
  \<open>child\<close> is the instance \<^verbatim>\<open>T1()\<close> created when the class is defined, object 0; the
  literal \<^verbatim>\<open>0.0001\<close> is the double of value \<open>7378697629483821 / 2 ^ 66\<close>.
\<close>

definition double_0_0001 :: rat where
  "double_0_0001 = 7378697629483821 / 73786976294838206464"

definition T1_default_instance :: pyval where
  "T1_default_instance = PInst 0 T1_id [(''foo'', PInt 1), (''bar'', PStr ''baz'')]"

definition T2_params :: "(string \<times> pyval option) list" where
  "T2_params =
     [(''child'', Some T1_default_instance),
      (''alpha'', Some (PFloat double_0_0001)),
      (''beta'', Some (PStr ''default''))]"

text \<open>
  \<^verbatim>\<open>T2.get_config\<close>: \<^verbatim>\<open>self.child.get_config()\<close> runs the method of the child's class. The
  child is an instance of \<^verbatim>\<open>T1\<close> (the source: ``child is supposed to be an instance of
  T1''); a value of a built-in type or a class object has no such method.
\<close>

fun T2_child_get_config :: "pyval \<Rightarrow> error + pyval" where
  "T2_child_get_config (PInst _ c attrs) =
     (if c = T1_id then get_config_body T1_cls attrs else Inl AttributeError)"
| "T2_child_get_config _ = Inl AttributeError"

definition T2_get_config :: "pydict \<Rightarrow> error + pyval" where
  "T2_get_config attrs =
     (case map_of attrs ''child'' of
        None \<Rightarrow> Inl AttributeError
      | Some child \<Rightarrow>
     (case T2_child_get_config child of
        Inl e \<Rightarrow> Inl e
      | Inr child_config \<Rightarrow>
     (case map_of attrs ''alpha'' of
        None \<Rightarrow> Inl AttributeError
      | Some alpha \<Rightarrow>
     (case map_of attrs ''beta'' of
        None \<Rightarrow> Inl AttributeError
      | Some beta \<Rightarrow>
          Inr (PDict [(''child'', child_config), (''alpha'', alpha), (''beta'', beta)])))))"

text \<open>
  \<^verbatim>\<open>T2.get_default_config\<close>: the default configuration of \<^verbatim>\<open>Configurable\<close> for the
  constructor of \<^verbatim>\<open>T2\<close>, with \<open>child\<close> replaced by \<^verbatim>\<open>default['child'].get_default_config()\<close>,
  which for the instance \<^verbatim>\<open>T1()\<close> is the class method of \<^verbatim>\<open>T1\<close>.
\<close>

definition T2_declared :: pycls where
  "T2_declared = (echo_class tests_module ''T2'' T2_params)\<lparr>get_config_body := T2_get_config\<rparr>"

definition T2_get_default_config :: "error + pyval" where
  "T2_get_default_config =
     (let default = get_default_config T2_declared in
      case map_of default ''child'' of
        None \<Rightarrow> Inl (KeyError (PStr ''child''))
      | Some child \<Rightarrow>
          (case call_get_default_config T1_cls of
             Inl e \<Rightarrow> Inl e
           | Inr child_default \<Rightarrow> Inr (PDict (AList.update ''child'' child_default default))))"

text \<open>
  \<^verbatim>\<open>T2.from_config(cls, config, merge_default=True)\<close>: it assigns the instance built by
  \<^verbatim>\<open>T1.from_config(config['child'])\<close> into the dictionary it was given, then calls the
  method of \<^verbatim>\<open>Configurable\<close> on that dictionary, passing \<open>merge_default\<close> on. The call of
  \<^verbatim>\<open>super().from_config\<close> reads the constructor and \<^verbatim>\<open>get_default_config\<close> of \<^verbatim>\<open>T2\<close>.
\<close>

definition T2_super :: pycls where
  "T2_super = T2_declared\<lparr>default_config_override := Some T2_get_default_config\<rparr>"

definition T2_from_config_body ::
  "pyval \<Rightarrow> pyval \<Rightarrow> world \<Rightarrow> (error + pyval \<times> pyval) \<times> world" where
  "T2_from_config_body config merge_default w =
     (case config of
        PDict cfg \<Rightarrow>
          (case map_of cfg ''child'' of
             None \<Rightarrow> (Inl (KeyError (PStr ''child'')), w)
           | Some child_config \<Rightarrow>
               (case call_from_config T1_id T1_cls child_config [] w of
                  (Inl e, w1) \<Rightarrow> (Inl e, w1)
                | (Inr (child, _), w1) \<Rightarrow>
                    from_config T2_id T2_super
                      (PDict (AList.update ''child'' child cfg)) [merge_default] w1))
      | _ \<Rightarrow> (Inl TypeError, w))"

fun T2_from_config ::
  "pyval \<Rightarrow> pyval list \<Rightarrow> world \<Rightarrow> (error + pyval \<times> pyval) \<times> world" where
  "T2_from_config config [] w = T2_from_config_body config (PBool True) w"
| "T2_from_config config [merge_default] w = T2_from_config_body config merge_default w"
| "T2_from_config config _ w = (Inl TypeError, w)"

definition T2_cls :: pycls where
  "T2_cls = T2_super\<lparr>from_config_override := Some T2_from_config\<rparr>"

subsection \<open>The documented pattern of a nested class\<close>

text \<open>
  The docstring of \<^verbatim>\<open>Configurable.from_config\<close> gives the pattern of a class that
  overrides the method: a shallow copy of \<open>config_dict\<close> (``important to maintain
  idempotency''), the merge on top of \<^verbatim>\<open>cls.get_default_config()\<close> when \<open>merge_default\<close>
  is true, the overriding of values, and the call of \<^verbatim>\<open>super().from_config\<close> with
  \<open>merge_default\<close> passed on. The overriding of values is the one of \<^verbatim>\<open>T2\<close>: the entry
  under the child's name is replaced by the instance that the \<^verbatim>\<open>from_config\<close> of the
  child's class builds from it. The copy is what is changed, so the dictionary of the
  caller is returned as it was given; \<open>config_dict\<close> is a dictionary, as its annotation
  says, and any other value raises \<^verbatim>\<open>TypeError\<close>.
\<close>

definition documented_from_config_body ::
  "cid \<Rightarrow> pycls \<Rightarrow> string \<Rightarrow> cid \<Rightarrow> pycls \<Rightarrow> pyval \<Rightarrow> pyval \<Rightarrow> world
    \<Rightarrow> (error + pyval \<times> pyval) \<times> world" where
  "documented_from_config_body c super child_name child_c child_cls config_dict merge_default w =
     (case config_dict of
        PDict copy \<Rightarrow>
          (case (if truthy merge_default then
                   (case call_get_default_config super of
                      Inl e \<Rightarrow> Inl e
                    | Inr dflt \<Rightarrow> call_merge_dict dflt (PDict copy))
                 else Inr (PDict copy)) of
             Inl e \<Rightarrow> (Inl e, w)
           | Inr (PDict cfg) \<Rightarrow>
               (case map_of cfg child_name of
                  None \<Rightarrow> (Inl (KeyError (PStr child_name)), w)
                | Some child_config \<Rightarrow>
                    (case call_from_config child_c child_cls child_config [] w of
                       (Inl e, w1) \<Rightarrow> (Inl e, w1)
                     | (Inr (child, _), w1) \<Rightarrow>
                         (case from_config c super (PDict (AList.update child_name child cfg))
                                 [merge_default] w1 of
                            (Inl e, w2) \<Rightarrow> (Inl e, w2)
                          | (Inr (inst, _), w2) \<Rightarrow> (Inr (inst, config_dict), w2))))
           | Inr _ \<Rightarrow> (Inl TypeError, w))
      | _ \<Rightarrow> (Inl TypeError, w))"

fun documented_from_config ::
  "cid \<Rightarrow> pycls \<Rightarrow> string \<Rightarrow> cid \<Rightarrow> pycls \<Rightarrow> pyval \<Rightarrow> pyval list \<Rightarrow> world
    \<Rightarrow> (error + pyval \<times> pyval) \<times> world" where
  "documented_from_config c super child_name child_c child_cls config_dict [] w =
     documented_from_config_body c super child_name child_c child_cls config_dict (PBool True) w"
| "documented_from_config c super child_name child_c child_cls config_dict [merge_default] w =
     documented_from_config_body c super child_name child_c child_cls config_dict merge_default w"
| "documented_from_config c super child_name child_c child_cls config_dict _ w =
     (Inl TypeError, w)"

text \<open>
  A nested class in the pattern of \<^verbatim>\<open>T2\<close>, with the \<^verbatim>\<open>from_config\<close> of the docstring: the
  constructor takes the child first, with an instance of the child's class as default,
  and then the parameters \<open>ps\<close>, and stores each argument; \<^verbatim>\<open>get_config\<close> returns the
  child's \<^verbatim>\<open>get_config()\<close> under the child's name and then the other attributes;
  \<^verbatim>\<open>get_default_config\<close> replaces the default of the child by the default configuration
  of the child's class.
\<close>

definition nested_get_config ::
  "string \<Rightarrow> cid \<Rightarrow> pycls \<Rightarrow> string list \<Rightarrow> pydict \<Rightarrow> error + pyval" where
  "nested_get_config child_name child_c child_cls ns attrs =
     (case map_of attrs child_name of
        None \<Rightarrow> Inl AttributeError
      | Some child \<Rightarrow>
     (case (case child of
              PInst _ c child_attrs \<Rightarrow>
                if c = child_c then get_config_body child_cls child_attrs else Inl AttributeError
            | _ \<Rightarrow> Inl AttributeError) of
        Inl e \<Rightarrow> Inl e
      | Inr child_config \<Rightarrow>
     (case read_attrs ns attrs of
        Inl e \<Rightarrow> Inl e
      | Inr rest \<Rightarrow> Inr (PDict ((child_name, child_config) # rest)))))"

definition nested_default_config :: "pycls \<Rightarrow> string \<Rightarrow> pycls \<Rightarrow> error + pyval" where
  "nested_default_config declared child_name child_cls =
     (let default = get_default_config declared in
      case map_of default child_name of
        None \<Rightarrow> Inl (KeyError (PStr child_name))
      | Some child \<Rightarrow>
          (case call_get_default_config child_cls of
             Inl e \<Rightarrow> Inl e
           | Inr child_default \<Rightarrow> Inr (PDict (AList.update child_name child_default default))))"

definition nested_super ::
  "string \<Rightarrow> string \<Rightarrow> string \<Rightarrow> cid \<Rightarrow> pycls \<Rightarrow> pyval
    \<Rightarrow> (string \<times> pyval option) list \<Rightarrow> pycls" where
  "nested_super m n child_name child_c child_cls child_default ps =
     (let declared = (echo_class m n ((child_name, Some child_default) # ps))
            \<lparr>get_config_body := nested_get_config child_name child_c child_cls (map fst ps)\<rparr>
      in declared\<lparr>default_config_override :=
           Some (nested_default_config declared child_name child_cls)\<rparr>)"

definition nested_class ::
  "cid \<Rightarrow> string \<Rightarrow> string \<Rightarrow> string \<Rightarrow> cid \<Rightarrow> pycls \<Rightarrow> pyval
    \<Rightarrow> (string \<times> pyval option) list \<Rightarrow> pycls" where
  "nested_class c m n child_name child_c child_cls child_default ps =
     (nested_super m n child_name child_c child_cls child_default ps)
       \<lparr>from_config_override :=
          Some (documented_from_config c
                  (nested_super m n child_name child_c child_cls child_default ps)
                  child_name child_c child_cls)\<rparr>"

subsection \<open>Further classes\<close>

text \<open>
  The two classes \<^verbatim>\<open>T\<close> local to \<^verbatim>\<open>test_configurable_default_config\<close>
  (\<^verbatim>\<open>__init__(self, a, b, cat)\<close>) and to \<^verbatim>\<open>test_configurable_default_config_kwonlys\<close>
  (\<^verbatim>\<open>__init__(self, a, *, b=0)\<close>): two class objects with the same module and name.
\<close>

definition T_abc_cls :: pycls where
  "T_abc_cls = abstract_class tests_module ''T''
     (Some [self_param, kw_param (''a'', None), kw_param (''b'', None), kw_param (''cat'', None)])"

definition T_kwonly_cls :: pycls where
  "T_kwonly_cls = abstract_class tests_module ''T''
     (Some [self_param, kw_param (''a'', None),
            \<lparr>pname = ''b'', pkind = KEYWORD_ONLY, pdefault = Some (PInt 0)\<rparr>])"

text \<open>
  A class in the pattern of \<^verbatim>\<open>T1\<close> whose parameter has a dictionary as default:
  \<^verbatim>\<open>__init__(self, opts={'x': 1})\<close>.
\<close>

definition Opts_cls :: pycls where
  "Opts_cls = echo_class ''plugins'' ''Opts'' [(''opts'', Some (PDict [(''x'', PInt 1)]))]"

definition tests_classes :: classes where
  "tests_classes c =
     (if c = T1_id then T1_cls
      else if c = T2_id then T2_cls
      else if c = T_abc_id then T_abc_cls
      else if c = T_kwonly_id then T_kwonly_cls
      else if c = Opts_id then Opts_cls
      else plain_class tests_module ''NotConfigurable'')"

text \<open>\<^verbatim>\<open>T2\<close> with the \<^verbatim>\<open>from_config\<close> of the docstring, and the classes of the tests with
  it in the place of \<^verbatim>\<open>T2\<close>.\<close>

definition T2_documented_cls :: pycls where
  "T2_documented_cls =
     nested_class T2_id tests_module ''T2'' ''child'' T1_id T1_cls T1_default_instance
       [(''alpha'', Some (PFloat double_0_0001)), (''beta'', Some (PStr ''default''))]"

definition documented_classes :: classes where
  "documented_classes c = (if c = T2_id then T2_documented_cls else tests_classes c)"

text \<open>The state in which the tests start: object 0 exists, nothing has been called.\<close>

definition tests_world :: world where
  "tests_world = \<lparr>next_oid = 1, trace = []\<rparr>"


section \<open>The class table of the tests\<close>

lemma tests_classes_simps:
  "tests_classes T1_id = T1_cls"
  "tests_classes T2_id = T2_cls"
  "tests_classes T_abc_id = T_abc_cls"
  "tests_classes T_kwonly_id = T_kwonly_cls"
  "tests_classes Opts_id = Opts_cls"
  "tests_classes NotConfigurable_id = plain_class tests_module ''NotConfigurable''"
  by (simp_all add: tests_classes_def T1_id_def T2_id_def T_abc_id_def T_kwonly_id_def
      Opts_id_def NotConfigurable_id_def)

lemma tests_keys:
  "cls_key T1_cls = ''tests.test_configuration.T1''"
  "cls_key T2_cls = ''tests.test_configuration.T2''"
  "cls_key T_abc_cls = ''tests.test_configuration.T''"
  "cls_key T_kwonly_cls = ''tests.test_configuration.T''"
  by (simp_all add: T1_cls_def T2_cls_def T2_super_def T2_declared_def T_abc_cls_def
      T_kwonly_cls_def echo_class_def abstract_class_def cls_key_def tests_module_def)

lemma tests_default_configs:
  "call_get_default_config T1_cls = Inr (PDict [(''foo'', PInt 1), (''bar'', PStr ''baz'')])"
  "call_get_default_config T2_cls =
     Inr (PDict [(''child'', PDict [(''foo'', PInt 1), (''bar'', PStr ''baz'')]),
                 (''alpha'', PFloat double_0_0001), (''beta'', PStr ''default'')])"
  "call_get_default_config T_abc_cls =
     Inr (PDict [(''a'', PNone), (''b'', PNone), (''cat'', PNone)])"
  "call_get_default_config T_kwonly_cls = Inr (PDict [(''a'', PNone), (''b'', PInt 0)])"
  by (simp_all add: call_get_default_config_def get_default_config_def param_map_func_def
      T1_cls_def T2_cls_def T2_super_def T2_declared_def T2_get_default_config_def T2_params_def
      T_abc_cls_def T_kwonly_cls_def T1_default_instance_def
      echo_class_def abstract_class_def self_param_def kw_param_def keep_kinds_def)

lemma tests_configurable:
  "configurable T1_cls" "configurable T2_cls" "configurable T_abc_cls" "configurable T_kwonly_cls"
  "\<not> configurable (plain_class m n)"
  by (simp_all add: T1_cls_def T2_cls_def T2_super_def T2_declared_def T_abc_cls_def
      T_kwonly_cls_def echo_class_def abstract_class_def plain_class_def)

lemma T1_get_config_body: "get_config_body T1_cls = echo_get_config [''foo'', ''bar'']"
  by (simp add: T1_cls_def echo_class_def)

lemma T1_fields:
  "from_config_override T1_cls = None"
  "init_body T1_cls = bind_keywords [(''foo'', Some (PInt 1)), (''bar'', Some (PStr ''baz''))]"
  "cls_name T1_cls = ''T1''"
  by (simp_all add: T1_cls_def echo_class_def)

lemma Opts_fields:
  "from_config_override Opts_cls = None"
  "init_body Opts_cls = bind_keywords [(''opts'', Some (PDict [(''x'', PInt 1)]))]"
  "get_config_body Opts_cls = echo_get_config [''opts'']"
  "configurable Opts_cls"
  "call_get_default_config Opts_cls = Inr (PDict [(''opts'', PDict [(''x'', PInt 1)])])"
  by (simp_all add: Opts_cls_def echo_class_def call_get_default_config_def
      get_default_config_def param_map_func_def self_param_def kw_param_def keep_kinds_def)

lemma T2_fields:
  "from_config_override T2_cls = Some T2_from_config"
  "get_config_body T2_cls = T2_get_config"
  "init_body T2_super = bind_keywords T2_params"
  "call_get_default_config T2_super = call_get_default_config T2_cls"
  by (simp_all add: T2_cls_def T2_super_def T2_declared_def echo_class_def
      call_get_default_config_def)

section \<open>Dictionaries built by successive stores\<close>

lemma update_fresh: "k \<notin> fst ` set al \<Longrightarrow> AList.update k v al = al @ [(k, v)]"
  by (induction al) auto

lemma map_of_fold_update:
  "map_of (fold (\<lambda>c. AList.update (f c) (g c)) cs m) k =
     (if \<exists>c \<in> set cs. f c = k then Some (g (last (filter (\<lambda>c. f c = k) cs))) else map_of m k)"
proof (induction cs rule: rev_induct)
  case Nil
  then show ?case by simp
next
  case (snoc c cs)
  show ?case
    by (auto simp add: snoc.IH update_conv')
qed

lemma keys_fold_update:
  "fst ` set (fold (\<lambda>c. AList.update (f c) (g c)) cs m) = fst ` set m \<union> f ` set cs"
  by (induction cs rule: rev_induct) (auto simp: dom_update)

lemma keys_fold_update_order:
  "map fst (fold (\<lambda>c. AList.update (f c) (g c)) cs m) =
     map fst m @ rev (remdups (rev (filter (\<lambda>k. k \<notin> fst ` set m) (map f cs))))"
proof (induction cs rule: rev_induct)
  case Nil
  then show ?case by simp
next
  case (snoc c cs)
  show ?case
    using snoc.IH keys_fold_update[of f g cs m]
    by (auto simp add: update_keys)
qed

section \<open>Resolution of the configured type\<close>

text \<open>A type key holds a dot, so it is never the key \<^verbatim>\<open>"type"\<close>.\<close>

lemma cls_key_not_type: "cls_key k \<noteq> ''type''"
proof
  assume "cls_key k = ''type''"
  then have "CHR ''.'' \<in> set ''type''"
    unfolding cls_key_def by (metis in_set_conv_decomp append_Cons append_Nil)
  then show False by simp
qed

lemma build_type_map_classes:
  "build_type_map CT m (map PCls cs) =
     Inr (fold (\<lambda>c. AList.update (cls_key (CT c)) (PCls c)) cs m)"
  by (induction cs arbitrary: m) auto

text \<open>
  C2. On a configuration dictionary and candidate classes \<open>cs\<close>,
  \<open>cls_conf_from_config_dict\<close> fails in this order, the first failure that applies
  winning: the missing-type error when the key \<^verbatim>\<open>"type"\<close> is absent; the unset-type error
  with all keys other than \<^verbatim>\<open>"type"\<close> as options when its value is \<^verbatim>\<open>None\<close>; the
  no-config-block error with the same options when the named type is not among the
  other keys; the unknown-implementation error with the candidates' keys when the name
  is a key of the dictionary and the key of no candidate; otherwise it returns the
  candidate of that key (the last one in iteration order) with the block under the key.
  A value of \<^verbatim>\<open>"type"\<close> that is neither \<^verbatim>\<open>None\<close> nor a string is no key of the dictionary,
  or is unhashable.
\<close>

theorem cls_conf_from_config_dict_order:
  "cls_conf_from_config_dict CT config (map PCls cs) =
     (let options = set (map fst config) - {''type''};
          ids = map (\<lambda>c. cls_key (CT c)) cs
      in case map_of config ''type'' of
           None \<Rightarrow> Inl (ValueError MissingType)
         | Some PNone \<Rightarrow> Inl (ValueError (UnsetType options))
         | Some (PStr name) \<Rightarrow>
             if name \<notin> options then Inl (ValueError (NoConfigBlock (PStr name) options))
             else if name \<notin> set ids then
               Inl (ValueError (UnknownImplementation (PStr name) (rev (remdups (rev ids)))))
             else
               Inr (PCls (last (filter (\<lambda>c. cls_key (CT c) = name) cs)),
                    the (map_of config name))
         | Some v \<Rightarrow>
             if hashable v then Inl (ValueError (NoConfigBlock v options)) else Inl TypeError)"
proof (cases "map_of config ''type''")
  case None
  then show ?thesis by (simp add: cls_conf_from_config_dict_def)
next
  case (Some v)
  let ?m = "fold (\<lambda>c. AList.update (cls_key (CT c)) (PCls c)) cs []"
  have keys: "map fst ?m = rev (remdups (rev (map (\<lambda>c. cls_key (CT c)) cs)))"
    by (simp add: keys_fold_update_order)
  have look: "map_of ?m k =
      (if k \<in> set (map (\<lambda>c. cls_key (CT c)) cs)
       then Some (PCls (last (filter (\<lambda>c. cls_key (CT c) = k) cs))) else None)" for k
    by (auto simp add: map_of_fold_update)
  show ?thesis
    by (cases v)
      (auto simp add: cls_conf_from_config_dict_def Some build_type_map_classes keys look
        Let_def split: option.splits dest: weak_map_of_SomeI)
qed

text \<open>The five outcomes on the dictionaries of the tests, with the keys of \<^verbatim>\<open>T1\<close> and
  \<^verbatim>\<open>T2\<close>.\<close>

theorem cls_conf_from_config_dict_order_witness:
  "cls_conf_from_config_dict tests_classes
     [(''T1'', PDict []), (''NotAnImpl'', PDict [])] (map PCls [T1_id, T2_id])
     = Inl (ValueError MissingType) \<and>
   cls_conf_from_config_dict tests_classes
     [(''type'', PNone), (''T1'', PDict []), (''NotAnImpl'', PDict [])] (map PCls [T1_id, T2_id])
     = Inl (ValueError (UnsetType {''T1'', ''NotAnImpl''})) \<and>
   cls_conf_from_config_dict tests_classes
     [(''type'', PStr ''not-present-label''), (''T1'', PDict []), (''NotAnImpl'', PDict [])]
     (map PCls [T1_id, T2_id])
     = Inl (ValueError (NoConfigBlock (PStr ''not-present-label'') {''T1'', ''NotAnImpl''})) \<and>
   cls_conf_from_config_dict tests_classes
     [(''type'', PStr ''NotAnImpl''), (''T1'', PDict []), (''NotAnImpl'', PDict [])]
     (map PCls [T1_id, T2_id])
     = Inl (ValueError (UnknownImplementation (PStr ''NotAnImpl'')
         [''tests.test_configuration.T1'', ''tests.test_configuration.T2''])) \<and>
   cls_conf_from_config_dict tests_classes
     [(''type'', PStr ''tests.test_configuration.T1''),
      (''tests.test_configuration.T1'', PDict [(''foo'', PInt 256)]),
      (''NotAnImpl'', PDict [])]
     (map PCls [T1_id, T2_id])
     = Inr (PCls T1_id, PDict [(''foo'', PInt 256)])"
proof -
  show ?thesis
    using
      cls_conf_from_config_dict_order [of tests_classes
        "[(''T1'', PDict []), (''NotAnImpl'', PDict [])]" "[T1_id, T2_id]"]
      cls_conf_from_config_dict_order [of tests_classes
        "[(''type'', PNone), (''T1'', PDict []), (''NotAnImpl'', PDict [])]" "[T1_id, T2_id]"]
      cls_conf_from_config_dict_order [of tests_classes
        "[(''type'', PStr ''not-present-label''), (''T1'', PDict []), (''NotAnImpl'', PDict [])]"
        "[T1_id, T2_id]"]
      cls_conf_from_config_dict_order [of tests_classes
        "[(''type'', PStr ''NotAnImpl''), (''T1'', PDict []), (''NotAnImpl'', PDict [])]"
        "[T1_id, T2_id]"]
      cls_conf_from_config_dict_order [of tests_classes
        "[(''type'', PStr ''tests.test_configuration.T1''),
          (''tests.test_configuration.T1'', PDict [(''foo'', PInt 256)]),
          (''NotAnImpl'', PDict [])]"
        "[T1_id, T2_id]"]
    by (auto simp add: tests_classes_simps tests_keys Let_def)
qed

text \<open>
  C8. The key of a class is its module, a dot and its name. When several candidates
  have the key the configuration names, the lookup map built for the call binds the key
  to the one that comes last in iteration order, and resolution returns that one.
\<close>

theorem type_key_last_candidate_wins:
  assumes "cls_key (CT c) = name"
    and "\<forall>c' \<in> set later. cls_key (CT c') \<noteq> name"
    and "map_of config ''type'' = Some (PStr name)"
    and "map_of config name = Some conf"
  shows "type_to_key CT (PCls c) = Inr (cls_module (CT c) @ ''.'' @ cls_name (CT c)) \<and>
    (\<exists>type_map. build_type_map CT [] (map PCls (earlier @ c # later)) = Inr type_map \<and>
       map_of type_map name = Some (PCls c)) \<and>
    cls_conf_from_config_dict CT config (map PCls (earlier @ c # later)) = Inr (PCls c, conf)"
proof -
  let ?cs = "earlier @ c # later"
  let ?m = "fold (\<lambda>c. AList.update (cls_key (CT c)) (PCls c)) ?cs []"
  have no_later: "filter (\<lambda>c'. cls_key (CT c') = name) later = []"
    using assms(2) by (simp add: filter_empty_conv)
  have last_c: "last (filter (\<lambda>c'. cls_key (CT c') = name) ?cs) = c"
    using assms(1) no_later by simp
  have look: "map_of ?m name = Some (PCls c)"
    using assms(1) last_c by (subst map_of_fold_update) auto
  have keys: "name \<in> set (map fst ?m)"
    using assms(1) keys_fold_update[of "\<lambda>c. cls_key (CT c)" PCls ?cs "[]"] by auto
  have not_type: "name \<noteq> ''type''"
    using assms(1) cls_key_not_type by blast
  have in_config: "name \<in> fst ` set config"
    using assms(4) by (metis map_of_eq_None_iff option.distinct(1))
  have tm: "build_type_map CT [] (map PCls ?cs) = Inr ?m"
    by (rule build_type_map_classes)
  have res: "cls_conf_from_config_dict CT config (map PCls ?cs) = Inr (PCls c, conf)"
    unfolding cls_conf_from_config_dict_def tm
    using assms(3,4) look keys not_type in_config by (simp add: Let_def)
  have key: "type_to_key CT (PCls c) = Inr (cls_module (CT c) @ ''.'' @ cls_name (CT c))"
    by (simp add: cls_key_def)
  from tm look have "\<exists>type_map. build_type_map CT [] (map PCls ?cs) = Inr type_map \<and>
       map_of type_map name = Some (PCls c)"
    by blast
  with key res show ?thesis by blast
qed

text \<open>The two classes \<^verbatim>\<open>T\<close> of the tests have the same key; given in the order
  \<^verbatim>\<open>[T(a, b, cat), T(a, *, b=0)]\<close>, resolution returns the second.\<close>

theorem type_key_last_candidate_wins_witness:
  "type_to_key tests_classes (PCls T_kwonly_id) = Inr ''tests.test_configuration.T'' \<and>
   (\<exists>type_map. build_type_map tests_classes [] (map PCls [T_abc_id, T_kwonly_id]) = Inr type_map \<and>
      map_of type_map ''tests.test_configuration.T'' = Some (PCls T_kwonly_id)) \<and>
   cls_conf_from_config_dict tests_classes
     [(''type'', PStr ''tests.test_configuration.T''),
      (''tests.test_configuration.T'', PDict [(''a'', PInt 1)])]
     (map PCls [T_abc_id, T_kwonly_id])
     = Inr (PCls T_kwonly_id, PDict [(''a'', PInt 1)])"
proof -
  have key: "cls_key (tests_classes T_kwonly_id) = ''tests.test_configuration.T''"
    by (simp add: tests_classes_simps tests_keys)
  have later: "\<forall>c' \<in> set []. cls_key (tests_classes c') \<noteq> ''tests.test_configuration.T''"
    by simp
  have ty: "map_of [(''type'', PStr ''tests.test_configuration.T''),
      (''tests.test_configuration.T'', PDict [(''a'', PInt 1)])] ''type''
      = Some (PStr ''tests.test_configuration.T'')"
    by simp
  have block: "map_of [(''type'', PStr ''tests.test_configuration.T''),
      (''tests.test_configuration.T'', PDict [(''a'', PInt 1)])] ''tests.test_configuration.T''
      = Some (PDict [(''a'', PInt 1)])"
    by simp
  show ?thesis
    using type_key_last_candidate_wins [OF key later ty block, of "[T_abc_id]"] key
    by (simp add: cls_key_def)
qed

section \<open>The default configuration\<close>

lemma keep_kinds_iff: "k \<in> keep_kinds \<longleftrightarrow> k \<notin> {VAR_POSITIONAL, VAR_KEYWORD}"
  by (cases k) (simp_all add: keep_kinds_def)

lemma param_map_loop_distinct:
  "distinct (map pname ps) \<Longrightarrow> pname ` set ps \<inter> fst ` set pmap = {} \<Longrightarrow>
   param_map_loop ps pmap =
     pmap @ map (\<lambda>p. (pname p, case pdefault p of None \<Rightarrow> PNone | Some d \<Rightarrow> d))
       (filter (\<lambda>p. pname p \<noteq> ''self'' \<and> pkind p \<notin> {VAR_POSITIONAL, VAR_KEYWORD}) ps)"
proof (induction ps arbitrary: pmap)
  case Nil
  then show ?case by simp
next
  case (Cons p ps)
  then show ?case
    by (auto simp add: keep_kinds_iff update_fresh)
qed

text \<open>
  C3. \<open>get_default_config\<close> of \<^verbatim>\<open>Configurable\<close> returns the empty dictionary for a class
  without an explicit constructor (its \<^verbatim>\<open>__init__\<close> is the one of \<^verbatim>\<open>object\<close>), and
  otherwise exactly one entry for each parameter of the constructor that is not the
  receiver \<^verbatim>\<open>self\<close>, which the source tells by its name, and not variadic, in the order
  of the signature: the key is the parameter's name, the value its default, or \<^verbatim>\<open>None\<close>
  when it has none. The names of a signature are distinct.
\<close>

theorem get_default_config_parameters:
  "(init_sig cls = None \<longrightarrow> get_default_config cls = []) \<and>
   (\<forall>sig. init_sig cls = Some sig \<and> distinct (map pname sig) \<longrightarrow>
      get_default_config cls =
        map (\<lambda>p. (pname p, case pdefault p of None \<Rightarrow> PNone | Some dflt \<Rightarrow> dflt))
          (filter (\<lambda>p. pname p \<noteq> ''self'' \<and> pkind p \<notin> {VAR_POSITIONAL, VAR_KEYWORD}) sig))"
proof (intro conjI allI impI)
  assume "init_sig cls = None"
  then show "get_default_config cls = []"
    by (simp add: get_default_config_def)
next
  fix sig
  assume sig: "init_sig cls = Some sig \<and> distinct (map pname sig)"
  then have "param_map_loop sig [] =
      map (\<lambda>p. (pname p, case pdefault p of None \<Rightarrow> PNone | Some dflt \<Rightarrow> dflt))
        (filter (\<lambda>p. pname p \<noteq> ''self'' \<and> pkind p \<notin> {VAR_POSITIONAL, VAR_KEYWORD}) sig)"
    using param_map_loop_distinct [of sig "[]"] by simp
  with sig show "get_default_config cls =
      map (\<lambda>p. (pname p, case pdefault p of None \<Rightarrow> PNone | Some dflt \<Rightarrow> dflt))
        (filter (\<lambda>p. pname p \<noteq> ''self'' \<and> pkind p \<notin> {VAR_POSITIONAL, VAR_KEYWORD}) sig)"
    by (simp add: get_default_config_def param_map_func_def)
qed

text \<open>The class \<^verbatim>\<open>T\<close> of \<^verbatim>\<open>test_configurable_default_config_with_default_values_with_star_args\<close>,
  \<^verbatim>\<open>__init__(self, a, b, c=0, d='foobar', *args, **kwargs)\<close>, and \<^verbatim>\<open>NoInitExample\<close>.\<close>

theorem get_default_config_parameters_witness:
  "get_default_config (abstract_class tests_module ''T''
     (Some [self_param, kw_param (''a'', None), kw_param (''b'', None),
            kw_param (''c'', Some (PInt 0)), kw_param (''d'', Some (PStr ''foobar'')),
            \<lparr>pname = ''args'', pkind = VAR_POSITIONAL, pdefault = None\<rparr>,
            \<lparr>pname = ''kwargs'', pkind = VAR_KEYWORD, pdefault = None\<rparr>]))
     = [(''a'', PNone), (''b'', PNone), (''c'', PInt 0), (''d'', PStr ''foobar'')] \<and>
   get_default_config (abstract_class tests_module ''NoInitExample'' None) = []"
  using
    get_default_config_parameters [of "abstract_class tests_module ''T''
     (Some [self_param, kw_param (''a'', None), kw_param (''b'', None),
            kw_param (''c'', Some (PInt 0)), kw_param (''d'', Some (PStr ''foobar'')),
            \<lparr>pname = ''args'', pkind = VAR_POSITIONAL, pdefault = None\<rparr>,
            \<lparr>pname = ''kwargs'', pkind = VAR_KEYWORD, pdefault = None\<rparr>])"]
    get_default_config_parameters [of "abstract_class tests_module ''NoInitExample'' None"]
  by (simp add: abstract_class_def self_param_def kw_param_def)


section \<open>The default standard configuration\<close>

lemma make_default_config_loop_classes:
  assumes "\<forall>c\<in>set cs. configurable (CT c) \<and> call_get_default_config (CT c) = Inr (dflt c)"
  shows "make_default_config_loop CT d (map PCls cs) =
     Inr (fold (\<lambda>c. AList.update (cls_key (CT c)) (dflt c)) cs d)"
  using assms by (induction cs arbitrary: d) auto

lemma last_filter_same_key:
  assumes "inj_on f (set cs)" and "c \<in> set cs"
  shows "last (filter (\<lambda>c'. f c' = f c) cs) = c"
proof -
  have "filter (\<lambda>c'. f c' = f c) cs = filter (\<lambda>c'. c' = c) cs"
    using assms by (intro filter_cong) (auto dest: inj_onD)
  moreover have "filter (\<lambda>c'. c' = c) cs \<noteq> []"
    using assms(2) by (simp add: filter_empty_conv)
  moreover have "\<forall>x \<in> set (filter (\<lambda>c'. c' = c) cs). x = c"
    by simp
  ultimately show ?thesis
    by (metis last_in_set)
qed

text \<open>
  C5, as the code has it. For candidates that are classes descending from
  \<^verbatim>\<open>Configurable\<close> whose \<^verbatim>\<open>get_default_config\<close> returns (\<open>dflt c\<close> for the class \<open>c\<close>),
  \<open>make_default_config\<close> returns a dictionary whose \<^verbatim>\<open>"type"\<close> is \<^verbatim>\<open>None\<close>, whatever the
  number of candidates, and which has besides \<^verbatim>\<open>"type"\<close> exactly one entry for each
  distinct type key of the candidates, in the order of first occurrence; the entry under
  a key holds the default configuration of the last candidate with that key. When the
  keys of the candidates are pairwise distinct, that is one entry for each candidate,
  holding that candidate's own default configuration.
\<close>

theorem make_default_config_entries:
  assumes "\<forall>c\<in>set cs. configurable (CT c) \<and> call_get_default_config (CT c) = Inr (dflt c)"
  shows "\<exists>d. make_default_config CT (map PCls cs) = Inr (PDict d) \<and>
     map_of d ''type'' = Some PNone \<and>
     map fst d = ''type'' # rev (remdups (rev (map (\<lambda>c. cls_key (CT c)) cs))) \<and>
     (\<forall>c\<in>set cs. map_of d (cls_key (CT c)) =
        Some (dflt (last (filter (\<lambda>c'. cls_key (CT c') = cls_key (CT c)) cs)))) \<and>
     (inj_on (\<lambda>c. cls_key (CT c)) (set cs) \<longrightarrow>
        (\<forall>c\<in>set cs. map_of d (cls_key (CT c)) = Some (dflt c)))"
proof -
  let ?d = "fold (\<lambda>c. AList.update (cls_key (CT c)) (dflt c)) cs [(''type'', PNone)]"
  have res: "make_default_config CT (map PCls cs) = Inr (PDict ?d)"
    by (simp add: make_default_config_def make_default_config_loop_classes [OF assms])
  have ty: "map_of ?d ''type'' = Some PNone"
    by (simp add: map_of_fold_update cls_key_not_type)
  have "filter (\<lambda>k. k \<noteq> ''type'') (map (\<lambda>c. cls_key (CT c)) cs) = map (\<lambda>c. cls_key (CT c)) cs"
    by (simp add: filter_id_conv cls_key_not_type)
  then have keys: "map fst ?d = ''type'' # rev (remdups (rev (map (\<lambda>c. cls_key (CT c)) cs)))"
    by (simp add: keys_fold_update_order)
  have look: "\<forall>c\<in>set cs. map_of ?d (cls_key (CT c)) =
        Some (dflt (last (filter (\<lambda>c'. cls_key (CT c') = cls_key (CT c)) cs)))"
    by (auto simp add: map_of_fold_update)
  have own: "inj_on (\<lambda>c. cls_key (CT c)) (set cs) \<longrightarrow>
        (\<forall>c\<in>set cs. map_of ?d (cls_key (CT c)) = Some (dflt c))"
    using look last_filter_same_key [of "\<lambda>c. cls_key (CT c)" cs] by auto
  show ?thesis
    by (rule exI [of _ ?d]) (intro conjI res ty keys look own)
qed

text \<open>The classes \<^verbatim>\<open>T1\<close> and \<^verbatim>\<open>T2\<close> of the tests, as in \<^verbatim>\<open>test_make_default_config\<close>.\<close>

theorem make_default_config_entries_witness:
  "\<exists>d. make_default_config tests_classes (map PCls [T1_id, T2_id]) = Inr (PDict d) \<and>
     map_of d ''type'' = Some PNone \<and>
     map fst d = [''type'', ''tests.test_configuration.T1'', ''tests.test_configuration.T2''] \<and>
     map_of d ''tests.test_configuration.T1'' =
       Some (PDict [(''foo'', PInt 1), (''bar'', PStr ''baz'')]) \<and>
     map_of d ''tests.test_configuration.T2'' =
       Some (PDict [(''child'', PDict [(''foo'', PInt 1), (''bar'', PStr ''baz'')]),
                    (''alpha'', PFloat double_0_0001), (''beta'', PStr ''default'')])"
proof -
  let ?dflt = "\<lambda>c. if c = T1_id then PDict [(''foo'', PInt 1), (''bar'', PStr ''baz'')]
     else PDict [(''child'', PDict [(''foo'', PInt 1), (''bar'', PStr ''baz'')]),
                 (''alpha'', PFloat double_0_0001), (''beta'', PStr ''default'')]"
  have ne: "T1_id \<noteq> T2_id"
    by (simp add: T1_id_def T2_id_def)
  have hyp: "\<forall>c\<in>set [T1_id, T2_id]. configurable (tests_classes c) \<and>
      call_get_default_config (tests_classes c) = Inr (?dflt c)"
    using ne by (simp add: tests_classes_simps tests_default_configs tests_configurable)
  have inj: "inj_on (\<lambda>c. cls_key (tests_classes c)) (set [T1_id, T2_id])"
    using ne by (auto simp add: tests_classes_simps tests_keys)
  show ?thesis
    using make_default_config_entries [OF hyp] inj ne
    by (auto simp add: tests_classes_simps tests_keys)
qed

text \<open>
  C5 as stated fails on the two classes \<^verbatim>\<open>T\<close> of the tests: both descend from
  \<^verbatim>\<open>Configurable\<close> and have the key \<^verbatim>\<open>tests.test_configuration.T\<close>, so the dictionary has
  one entry for the two candidates, and the entry under the key of the first,
  \<^verbatim>\<open>T(a, b, cat)\<close>, holds the default configuration of the second, not its own.
\<close>

theorem make_default_config_shared_key:
  "make_default_config tests_classes [PCls T_abc_id, PCls T_kwonly_id] =
     Inr (PDict [(''type'', PNone),
                 (''tests.test_configuration.T'', PDict [(''a'', PNone), (''b'', PInt 0)])]) \<and>
   type_to_key tests_classes (PCls T_abc_id) = Inr ''tests.test_configuration.T'' \<and>
   default_config_of tests_classes (PCls T_abc_id) =
     Inr (PDict [(''a'', PNone), (''b'', PNone), (''cat'', PNone)]) \<and>
   is_configurable_type tests_classes (PCls T_abc_id) \<and>
   is_configurable_type tests_classes (PCls T_kwonly_id)"
  by (simp add: make_default_config_def tests_classes_simps tests_keys tests_default_configs
      tests_configurable)

lemma make_default_config_loop_invalid:
  assumes "\<not> is_configurable_type CT v"
  shows "\<exists>e. make_default_config_loop CT d (pre @ v # post) = Inl e"
  using assms by (induction pre arbitrary: d) (auto split: sum.splits)

lemma make_default_config_loop_first_invalid:
  assumes "\<not> is_configurable_type CT v"
    and "\<forall>t\<in>set pre. is_configurable_type CT t \<and> (\<exists>d. default_config_of CT t = Inr d)"
  shows "make_default_config_loop CT d (pre @ v # post) =
     Inl (AssertionError (InvalidConfigurableType v))"
  using assms
proof (induction pre arbitrary: d)
  case Nil
  then show ?case by simp
next
  case (Cons t pre)
  then obtain c where "t = PCls c"
    by (cases t) auto
  with Cons show ?case by auto
qed

text \<open>
  C9. When the iterable holds an element that is not a class descending from
  \<^verbatim>\<open>Configurable\<close>, \<open>make_default_config\<close> returns no dictionary: it fails. When the
  elements before it are such classes and their \<^verbatim>\<open>get_default_config\<close> returns, the
  failure is the assertion error carrying that element.
\<close>

theorem make_default_config_rejects_invalid:
  assumes "\<not> is_configurable_type CT v"
  shows "(\<exists>e. make_default_config CT (pre @ v # post) = Inl e) \<and>
    ((\<forall>t\<in>set pre. is_configurable_type CT t \<and> (\<exists>d. default_config_of CT t = Inr d)) \<longrightarrow>
       make_default_config CT (pre @ v # post) = Inl (AssertionError (InvalidConfigurableType v)))"
proof -
  obtain e where "make_default_config_loop CT [(''type'', PNone)] (pre @ v # post) = Inl e"
    using make_default_config_loop_invalid [OF assms] by blast
  then have "\<exists>e. make_default_config CT (pre @ v # post) = Inl e"
    by (simp add: make_default_config_def)
  moreover have "make_default_config CT (pre @ v # post) =
      Inl (AssertionError (InvalidConfigurableType v))"
    if "\<forall>t\<in>set pre. is_configurable_type CT t \<and> (\<exists>d. default_config_of CT t = Inr d)"
    using make_default_config_loop_first_invalid [OF assms that]
    by (simp add: make_default_config_def)
  ultimately show ?thesis by blast
qed

text \<open>\<^verbatim>\<open>NotConfigurable\<close> of the tests between \<^verbatim>\<open>T1\<close> and \<^verbatim>\<open>T2\<close>.\<close>

theorem make_default_config_rejects_invalid_witness:
  "(\<exists>e. make_default_config tests_classes
       ([PCls T1_id] @ PCls NotConfigurable_id # [PCls T2_id]) = Inl e) \<and>
   make_default_config tests_classes ([PCls T1_id] @ PCls NotConfigurable_id # [PCls T2_id]) =
     Inl (AssertionError (InvalidConfigurableType (PCls NotConfigurable_id)))"
proof -
  have bad: "\<not> is_configurable_type tests_classes (PCls NotConfigurable_id)"
    by (simp add: tests_classes_simps tests_configurable)
  have pre: "\<forall>t\<in>set [PCls T1_id]. is_configurable_type tests_classes t \<and>
      (\<exists>d. default_config_of tests_classes t = Inr d)"
    by (simp add: tests_classes_simps tests_configurable tests_default_configs)
  show ?thesis
    using make_default_config_rejects_invalid [OF bad, of "[PCls T1_id]" "[PCls T2_id]"] pre
    by blast
qed

section \<open>The standard configuration of an instance\<close>

text \<open>
  C6. \<open>to_config_dict\<close> fails with the invalid-argument error when its argument is a
  class object or when the class of the argument does not descend from \<^verbatim>\<open>Configurable\<close>.
  Otherwise the argument is an instance of such a class, and the outcome is that of
  \<open>cls_conf_to_config_dict\<close> on the class and on what \<^verbatim>\<open>get_config\<close> returns, which is the
  dictionary of \<^verbatim>\<open>"type"\<close>, bound to the key of the class, and of that key, bound to the
  configuration; an exception of \<^verbatim>\<open>get_config\<close> itself is passed on.
\<close>

theorem to_config_dict_outcome:
  "(isinstance_type v \<or> \<not> issubclass_Configurable CT (class_of v) \<longrightarrow>
      to_config_dict CT v = Inl (ValueError (NotConfigurableInstance v))) \<and>
   (\<not> (isinstance_type v \<or> \<not> issubclass_Configurable CT (class_of v)) \<longrightarrow>
      (\<exists>oid c attrs. v = PInst oid c attrs \<and> configurable (CT c) \<and>
         to_config_dict CT v =
           (case get_config_body (CT c) attrs of
              Inl e \<Rightarrow> Inl e
            | Inr conf \<Rightarrow> cls_conf_to_config_dict CT (PCls c) conf) \<and>
         (\<forall>conf. cls_conf_to_config_dict CT (PCls c) conf =
            Inr (PDict [(''type'', PStr (cls_key (CT c))), (cls_key (CT c), conf)]))))"
proof (cases v)
  case (PInst oid c attrs)
  have "AList.update (cls_key (CT c)) conf [(''type'', PStr (cls_key (CT c)))] =
      [(''type'', PStr (cls_key (CT c))), (cls_key (CT c), conf)]" for conf
    using cls_key_not_type [of "CT c"] by auto
  then show ?thesis
    using PInst
    by (auto simp add: to_config_dict_def issubclass_Configurable_def
        cls_conf_to_config_dict_def split: sum.splits)
qed (simp_all add: to_config_dict_def issubclass_Configurable_def)

text \<open>The class \<^verbatim>\<open>T1\<close> itself, an instance of \<^verbatim>\<open>NotConfigurable\<close>, and \<^verbatim>\<open>T1(foo=8)\<close>, as in
  \<^verbatim>\<open>test_to_config_dict\<close> and the two tests after it.\<close>

theorem to_config_dict_outcome_witness:
  "to_config_dict tests_classes (PCls T1_id) =
     Inl (ValueError (NotConfigurableInstance (PCls T1_id))) \<and>
   to_config_dict tests_classes (PInst 7 NotConfigurable_id []) =
     Inl (ValueError (NotConfigurableInstance (PInst 7 NotConfigurable_id []))) \<and>
   to_config_dict tests_classes (PInst 8 T1_id [(''foo'', PInt 8), (''bar'', PStr ''baz'')]) =
     Inr (PDict [(''type'', PStr ''tests.test_configuration.T1''),
                 (''tests.test_configuration.T1'',
                  PDict [(''foo'', PInt 8), (''bar'', PStr ''baz'')])])"
  using
    to_config_dict_outcome [of "PCls T1_id" tests_classes]
    to_config_dict_outcome [of "PInst 7 NotConfigurable_id []" tests_classes]
    to_config_dict_outcome [of "PInst 8 T1_id [(''foo'', PInt 8), (''bar'', PStr ''baz'')]"
      tests_classes]
  by (simp add: issubclass_Configurable_def tests_classes_simps tests_configurable tests_keys
      T1_get_config_body echo_get_config_def)


section \<open>Construction from a standard configuration\<close>

text \<open>The values of the type map are the candidates, so a resolved type is a class
  object.\<close>

lemma build_type_map_values:
  assumes "build_type_map CT m ts = Inr m'"
    and "\<forall>(k, v) \<in> set m. \<exists>c. v = PCls c"
  shows "\<forall>(k, v) \<in> set m'. \<exists>c. v = PCls c"
  using assms
proof (induction ts arbitrary: m)
  case Nil
  then show ?case by simp
next
  case (Cons t ts)
  from Cons.prems(1) obtain c where t: "t = PCls c"
    by (cases t) auto
  have "set (AList.update (cls_key (CT c)) t m) \<subseteq> insert (cls_key (CT c), t) (set m)"
    by (induction m) auto
  with Cons.prems(2) t have "\<forall>(k, v) \<in> set (AList.update (cls_key (CT c)) t m). \<exists>c. v = PCls c"
    by auto
  with Cons.IH Cons.prems(1) t show ?case by simp
qed

lemma resolved_is_class:
  assumes "cls_conf_from_config_dict CT config type_iter = Inr (cls, conf)"
  shows "\<exists>c. cls = PCls c"
proof -
  from assms obtain type_map name where tm: "build_type_map CT [] type_iter = Inr type_map"
    and look: "key_lookup type_map name = Inr cls"
    by (auto simp add: cls_conf_from_config_dict_def Let_def
        split: option.splits sum.splits if_splits)
  from look obtain s where "map_of type_map s = Some cls"
    by (cases name) (auto split: option.splits)
  then have "(s, cls) \<in> set type_map"
    by (rule map_of_SomeD)
  with build_type_map_values [OF tm] show ?thesis by auto
qed

text \<open>
  C7. When \<open>cls_conf_from_config_dict\<close> returns a type and its block, the type is a class
  of the candidates. When that class does not descend from \<^verbatim>\<open>Configurable\<close>,
  \<open>from_config_dict\<close> fails with the assertion error naming the class, in the state it
  was called in; otherwise its outcome is exactly that of the call
  \<^verbatim>\<open>cls.from_config(cls_conf, *args)\<close>, the further arguments following the block in order.
\<close>

theorem from_config_dict_outcome:
  assumes "cls_conf_from_config_dict CT config type_iter = Inr (cls, conf)"
  shows "\<exists>c. cls = PCls c \<and>
    (\<not> configurable (CT c) \<longrightarrow>
       from_config_dict CT config type_iter args w =
         (Inl (AssertionError (NotDescendedFromConfigurable (cls_name (CT c)))), w)) \<and>
    (configurable (CT c) \<longrightarrow>
       from_config_dict CT config type_iter args w = call_from_config c (CT c) conf args w)"
proof -
  from resolved_is_class [OF assms] obtain c where "cls = PCls c" ..
  with assms show ?thesis
    by (simp add: from_config_dict_def)
qed

text \<open>The configuration of \<^verbatim>\<open>test_from_config_dict\<close> selecting \<^verbatim>\<open>T1\<close>, and the one of
  \<^verbatim>\<open>test_from_config_dict_assertion_error\<close>.\<close>

theorem from_config_dict_outcome_witness:
  "from_config_dict tests_classes
     [(''type'', PStr ''tests.test_configuration.T1''),
      (''tests.test_configuration.T1'',
       PDict [(''foo'', PInt 256), (''bar'', PStr ''Some string value'')]),
      (''NotAnImpl'', PDict [])]
     [PCls T1_id, PCls T2_id] [] tests_world =
     call_from_config T1_id T1_cls
       (PDict [(''foo'', PInt 256), (''bar'', PStr ''Some string value'')]) [] tests_world \<and>
   call_from_config T1_id T1_cls
       (PDict [(''foo'', PInt 256), (''bar'', PStr ''Some string value'')]) [] tests_world =
     (Inr (PInst 1 T1_id [(''foo'', PInt 256), (''bar'', PStr ''Some string value'')],
           PDict [(''foo'', PInt 256), (''bar'', PStr ''Some string value'')]),
      \<lparr>next_oid = 2,
       trace = [FromConfigCall T1_id
                  (PDict [(''foo'', PInt 256), (''bar'', PStr ''Some string value'')]) [],
                InitCall T1_id [(''foo'', PInt 256), (''bar'', PStr ''Some string value'')]]\<rparr>) \<and>
   from_config_dict tests_classes
     [(''type'', PStr ''tests.test_configuration.NotConfigurable''),
      (''tests.test_configuration.NotConfigurable'', PDict [])]
     [PCls T1_id, PCls NotConfigurable_id] [] tests_world =
     (Inl (AssertionError (NotDescendedFromConfigurable ''NotConfigurable'')), tests_world)"
proof -
  have r1: "cls_conf_from_config_dict tests_classes
     [(''type'', PStr ''tests.test_configuration.T1''),
      (''tests.test_configuration.T1'',
       PDict [(''foo'', PInt 256), (''bar'', PStr ''Some string value'')]),
      (''NotAnImpl'', PDict [])]
     [PCls T1_id, PCls T2_id] =
     Inr (PCls T1_id, PDict [(''foo'', PInt 256), (''bar'', PStr ''Some string value'')])"
    by (simp add: cls_conf_from_config_dict_def tests_classes_simps tests_keys)
  have r2: "cls_conf_from_config_dict tests_classes
     [(''type'', PStr ''tests.test_configuration.NotConfigurable''),
      (''tests.test_configuration.NotConfigurable'', PDict [])]
     [PCls T1_id, PCls NotConfigurable_id] = Inr (PCls NotConfigurable_id, PDict [])"
    by (simp add: cls_conf_from_config_dict_def tests_classes_simps tests_keys cls_key_def
        plain_class_def tests_module_def)
  have run: "call_from_config T1_id T1_cls
       (PDict [(''foo'', PInt 256), (''bar'', PStr ''Some string value'')]) [] tests_world =
     (Inr (PInst 1 T1_id [(''foo'', PInt 256), (''bar'', PStr ''Some string value'')],
           PDict [(''foo'', PInt 256), (''bar'', PStr ''Some string value'')]),
      \<lparr>next_oid = 2,
       trace = [FromConfigCall T1_id
                  (PDict [(''foo'', PInt 256), (''bar'', PStr ''Some string value'')]) [],
                InitCall T1_id [(''foo'', PInt 256), (''bar'', PStr ''Some string value'')]]\<rparr>)"
    by (simp add: call_from_config_def from_config_body_def construct_def log_event_def
        T1_fields tests_default_configs bind_keywords_def tests_world_def)
  show ?thesis
    using from_config_dict_outcome [OF r1, of "[]" tests_world]
      from_config_dict_outcome [OF r2, of "[]" tests_world] run
    by (simp add: tests_classes_simps tests_configurable plain_class_def)
qed

lemma from_config_trace:
  "\<exists>evs. trace (snd (from_config c cls conf args w)) = trace w @ evs"
proof -
  have body: "\<exists>evs. trace (snd (from_config_body c cls conf b w)) = trace w @ evs" for b
    by (auto simp add: from_config_body_def construct_def log_event_def Let_def
        split: sum.splits pyval.splits prod.splits)
  show ?thesis
    by (cases "(c, cls, conf, args, w)" rule: from_config.cases) (auto simp add: body)
qed

text \<open>
  C10. Validation comes before any construction. When the resolution of the
  configuration fails (with one of its four errors, or any other), and when the resolved
  class does not descend from \<^verbatim>\<open>Configurable\<close>, \<open>from_config_dict\<close> fails with that error
  in the very state it was called in: no \<^verbatim>\<open>from_config\<close> call and no constructor call is
  logged. When validation passes, the call of the resolved class's \<^verbatim>\<open>from_config\<close> is the
  first event logged (shown for the method of \<^verbatim>\<open>Configurable\<close>; a method of the class's
  own is free in what it does to the state).
\<close>

theorem from_config_dict_validates_first:
  "(\<forall>e. cls_conf_from_config_dict CT config type_iter = Inl e \<longrightarrow>
      from_config_dict CT config type_iter args w = (Inl e, w)) \<and>
   (\<forall>c conf. cls_conf_from_config_dict CT config type_iter = Inr (PCls c, conf) \<and>
        \<not> configurable (CT c) \<longrightarrow>
      from_config_dict CT config type_iter args w =
        (Inl (AssertionError (NotDescendedFromConfigurable (cls_name (CT c)))), w)) \<and>
   (\<forall>c conf. cls_conf_from_config_dict CT config type_iter = Inr (PCls c, conf) \<and>
        configurable (CT c) \<and> from_config_override (CT c) = None \<longrightarrow>
      (\<exists>evs. trace (snd (from_config_dict CT config type_iter args w)) =
         trace w @ FromConfigCall c conf args # evs))"
proof -
  have "\<exists>evs. trace (snd (from_config c (CT c) conf args (log_event (FromConfigCall c conf args) w)))
      = trace w @ FromConfigCall c conf args # evs" for c conf
    using from_config_trace [of c "CT c" conf args "log_event (FromConfigCall c conf args) w"]
    by (simp add: log_event_def)
  then show ?thesis
    by (auto simp add: from_config_dict_def call_from_config_def Let_def)
qed

text \<open>A dictionary without \<^verbatim>\<open>"type"\<close>, the configuration naming \<^verbatim>\<open>NotConfigurable\<close>, and a
  configuration selecting \<^verbatim>\<open>T1\<close>.\<close>

theorem from_config_dict_validates_first_witness:
  "from_config_dict tests_classes [(''T1'', PDict [])] [PCls T1_id, PCls T2_id] [] tests_world =
     (Inl (ValueError MissingType), tests_world) \<and>
   from_config_dict tests_classes
     [(''type'', PStr ''tests.test_configuration.NotConfigurable''),
      (''tests.test_configuration.NotConfigurable'', PDict [])]
     [PCls T1_id, PCls NotConfigurable_id] [] tests_world =
     (Inl (AssertionError (NotDescendedFromConfigurable ''NotConfigurable'')), tests_world) \<and>
   (\<exists>evs. trace (snd (from_config_dict tests_classes
        [(''type'', PStr ''tests.test_configuration.T1''),
         (''tests.test_configuration.T1'', PDict [(''foo'', PInt 256)])]
        [PCls T1_id, PCls T2_id] [] tests_world)) =
      trace tests_world @ FromConfigCall T1_id (PDict [(''foo'', PInt 256)]) [] # evs)"
proof -
  have r0: "cls_conf_from_config_dict tests_classes [(''T1'', PDict [])]
     [PCls T1_id, PCls T2_id] = Inl (ValueError MissingType)"
    by (simp add: cls_conf_from_config_dict_def)
  have r1: "cls_conf_from_config_dict tests_classes
     [(''type'', PStr ''tests.test_configuration.T1''),
      (''tests.test_configuration.T1'', PDict [(''foo'', PInt 256)])]
     [PCls T1_id, PCls T2_id] = Inr (PCls T1_id, PDict [(''foo'', PInt 256)])"
    by (simp add: cls_conf_from_config_dict_def tests_classes_simps tests_keys)
  have r2: "cls_conf_from_config_dict tests_classes
     [(''type'', PStr ''tests.test_configuration.NotConfigurable''),
      (''tests.test_configuration.NotConfigurable'', PDict [])]
     [PCls T1_id, PCls NotConfigurable_id] = Inr (PCls NotConfigurable_id, PDict [])"
    by (simp add: cls_conf_from_config_dict_def tests_classes_simps tests_keys cls_key_def
        plain_class_def tests_module_def)
  show ?thesis
    using
      from_config_dict_validates_first [of tests_classes "[(''T1'', PDict [])]"
        "[PCls T1_id, PCls T2_id]" "[]" tests_world]
      from_config_dict_validates_first [of tests_classes
        "[(''type'', PStr ''tests.test_configuration.NotConfigurable''),
          (''tests.test_configuration.NotConfigurable'', PDict [])]"
        "[PCls T1_id, PCls NotConfigurable_id]" "[]" tests_world]
      from_config_dict_validates_first [of tests_classes
        "[(''type'', PStr ''tests.test_configuration.T1''),
          (''tests.test_configuration.T1'', PDict [(''foo'', PInt 256)])]"
        "[PCls T1_id, PCls T2_id]" "[]" tests_world]
    by (simp add: r0 r1 r2 tests_classes_simps tests_configurable T1_fields plain_class_def)
qed

section \<open>Construction from a configuration\<close>

lemma merge_dict_step:
  "merge_dict a ((k, v) # b) =
     merge_dict (AList.update k
       (case (map_of a k, v) of (Some (PDict x), PDict y) \<Rightarrow> PDict (merge_dict x y) | _ \<Rightarrow> v) a) b"
  by (cases v) (auto split: option.splits pyval.splits)

lemma map_of_merge_dict:
  "distinct (map fst b) \<Longrightarrow>
   map_of (merge_dict a b) k =
     (case map_of b k of
        None \<Rightarrow> map_of a k
      | Some v \<Rightarrow>
          Some (case (map_of a k, v) of
                  (Some (PDict x), PDict y) \<Rightarrow> PDict (merge_dict x y)
                | _ \<Rightarrow> v))"
proof (induction b arbitrary: a)
  case Nil
  then show ?case by simp
next
  case (Cons p b)
  obtain k' v where p: "p = (k', v)" by (cases p)
  from Cons.prems p have fresh: "map_of b k' = None"
    by (simp add: map_of_eq_None_iff)
  show ?case
    unfolding p merge_dict_step
    using Cons.prems p fresh
    by (subst Cons.IH) (auto simp add: update_conv' split: option.splits)
qed





section \<open>The round trip\<close>

lemma py_eq_refl: "py_eq v v"
proof (induction v)
  case (PList xs)
  then show ?case by (auto simp: list_all_iff set_zip)
next
  case (PDict xs)
  have "\<And>k v. map_of xs k = Some v \<Longrightarrow> py_eq v v"
    using PDict by (fastforce dest!: map_of_SomeD)
  then show ?case
    by (auto simp: list_all_iff weak_map_of_SomeI split: option.splits)
qed auto

lemma bind_each_same_keys:
  "distinct (map fst kwargs) \<Longrightarrow> set sub \<subseteq> set kwargs \<Longrightarrow> map fst ps = map fst sub \<Longrightarrow>
   bind_each ps kwargs = Inr sub"
proof (induction ps arbitrary: sub)
  case Nil
  then show ?case by simp
next
  case (Cons p ps)
  obtain n d where p: "p = (n, d)" by (cases p)
  from Cons.prems(3) p obtain v sub' where sub: "sub = (n, v) # sub'"
    by (cases sub) auto
  with Cons.prems have "map_of kwargs n = Some v"
    by simp
  moreover from Cons.IH [of sub'] Cons.prems sub have "bind_each ps kwargs = Inr sub'"
    by simp
  ultimately show ?case
    by (simp add: p sub)
qed

lemma bind_keywords_same_keys:
  "distinct (map fst kwargs) \<Longrightarrow> map fst kwargs = map fst ps \<Longrightarrow>
   bind_keywords ps kwargs = Inr kwargs"
  by (simp add: bind_keywords_def bind_each_same_keys)

lemma read_attrs_same_keys:
  "distinct (map fst attrs) \<Longrightarrow> set sub \<subseteq> set attrs \<Longrightarrow> ns = map fst sub \<Longrightarrow>
   read_attrs ns attrs = Inr sub"
proof (induction ns arbitrary: sub)
  case Nil
  then show ?case by simp
next
  case (Cons n ns)
  then obtain v sub' where sub: "sub = (n, v) # sub'"
    by (cases sub) auto
  with Cons.prems have "map_of attrs n = Some v"
    by simp
  moreover from Cons.IH [of sub'] Cons.prems sub have "read_attrs ns attrs = Inr sub'"
    by simp
  ultimately show ?case
    by (simp add: sub)
qed

lemma echo_get_config_same_keys:
  "distinct (map fst attrs) \<Longrightarrow> echo_get_config (map fst attrs) attrs = Inr (PDict attrs)"
  using read_attrs_same_keys [of attrs attrs "map fst attrs"]
  by (simp add: echo_get_config_def)

lemma echo_class_default_config:
  assumes "distinct (''self'' # map fst ps)"
  shows "get_default_config (echo_class m n ps) =
     map (\<lambda>(k, d). (k, case d of None \<Rightarrow> PNone | Some v \<Rightarrow> v)) ps"
proof -
  have "pname \<circ> kw_param = fst"
    by (auto simp add: fun_eq_iff kw_param_def)
  then have names: "map pname (map kw_param ps) = map fst ps"
    by simp
  have "distinct (map pname (self_param # map kw_param ps))"
    using assms unfolding list.map names by (simp add: self_param_def)
  then have "get_default_config (echo_class m n ps) =
      map (\<lambda>p. (pname p, case pdefault p of None \<Rightarrow> PNone | Some dflt \<Rightarrow> dflt))
        (filter (\<lambda>p. pname p \<noteq> ''self'' \<and> pkind p \<notin> {VAR_POSITIONAL, VAR_KEYWORD})
          (self_param # map kw_param ps))"
    using param_map_loop_distinct [of "self_param # map kw_param ps" "[]"]
    by (simp add: get_default_config_def param_map_func_def echo_class_def)
  moreover have "filter (\<lambda>p. pname p \<noteq> ''self'' \<and> pkind p \<notin> {VAR_POSITIONAL, VAR_KEYWORD})
      (map kw_param ps) = map kw_param ps"
    using assms by (force simp add: filter_id_conv kw_param_def)
  ultimately show ?thesis
    by (simp add: self_param_def kw_param_def comp_def case_prod_beta)
qed

lemma echo_class_from_config:
  assumes "cls = echo_class m n ps"
    and "distinct (map fst attrs)" and "map fst attrs = map fst ps"
    and "merge_dict (get_default_config cls) attrs = attrs"
  shows "call_from_config X cls (PDict attrs) [] w =
     (Inr (PInst (next_oid w) X attrs, PDict attrs),
      \<lparr>next_oid = Suc (next_oid w),
       trace = trace w @ [FromConfigCall X (PDict attrs) [], InitCall X attrs]\<rparr>)"
proof -
  have ov: "from_config_override cls = None" "default_config_override cls = None"
    "init_body cls = bind_keywords ps"
    by (simp_all add: assms(1) echo_class_def)
  show ?thesis
    using assms(2-4)
    by (simp add: call_from_config_def from_config_body_def call_get_default_config_def ov
        construct_def log_event_def bind_keywords_same_keys)
qed

text \<open>The round trip of a class in the pattern of \<^verbatim>\<open>T1\<close>.\<close>

lemma echo_class_round_trip:
  assumes "CT X = echo_class m n ps"
    and "distinct (''self'' # map fst ps)"
    and "map fst attrs = map fst ps"
    and "merge_dict (get_default_config (CT X)) attrs = attrs"
  shows "\<exists>c1 c2 c3. round_trip CT (PInst oid X attrs) w = Inr (c1, c2, c3) \<and>
     c1 = PDict attrs \<and> c2 = c1 \<and> c3 = c2 \<and> py_eq c1 c2 \<and> py_eq c3 c2"
proof -
  have d: "distinct (map fst attrs)"
    using assms(2,3) by simp
  have gc: "get_config_body (CT X) attrs = Inr (PDict attrs)"
    using echo_get_config_same_keys [OF d] assms(1,3) by (simp add: echo_class_def)
  have fc: "call_from_config X (CT X) (PDict attrs) [] w' =
     (Inr (PInst (next_oid w') X attrs, PDict attrs),
      \<lparr>next_oid = Suc (next_oid w'),
       trace = trace w' @ [FromConfigCall X (PDict attrs) [], InitCall X attrs]\<rparr>)" for w'
    using echo_class_from_config [OF assms(1) d assms(3,4)] .
  have "round_trip CT (PInst oid X attrs) w = Inr (PDict attrs, PDict attrs, PDict attrs)"
    by (simp add: round_trip_def gc fc)
  then show ?thesis
    by (simp add: py_eq_refl)
qed

text \<open>The merge gives the configuration back when it has the keys of the default
  configuration and no default is a mapping.\<close>

lemma keys_merge_dict:
  "fst ` set b \<subseteq> fst ` set a \<Longrightarrow> map fst (merge_dict a b) = map fst a"
proof (induction b arbitrary: a)
  case Nil
  then show ?case by simp
next
  case (Cons p b)
  obtain k v where p: "p = (k, v)" by (cases p)
  show ?case
    unfolding p merge_dict_step
    using Cons.prems p
    by (subst Cons.IH) (auto simp add: dom_update update_keys)
qed

lemma alist_eqI:
  "map fst xs = map fst ys \<Longrightarrow> distinct (map fst xs) \<Longrightarrow> map_of xs = map_of ys \<Longrightarrow> xs = ys"
proof (induction xs arbitrary: ys)
  case Nil
  then show ?case by simp
next
  case (Cons x xs)
  obtain k v where x: "x = (k, v)" by (cases x)
  from Cons.prems(1) x obtain w ys' where ys: "ys = (k, w) # ys'"
    by (cases ys) auto
  from fun_cong [OF Cons.prems(3), of k] have vw: "v = w"
    by (simp add: x ys)
  have "map_of xs k' = map_of ys' k'" for k'
  proof (cases "k' = k")
    case True
    from Cons.prems(1,2) x ys have "k \<notin> fst ` set xs" and "k \<notin> fst ` set ys'"
      by (auto simp flip: set_map)
    then have "map_of xs k = None" and "map_of ys' k = None"
      by (simp_all add: map_of_eq_None_iff)
    with True show ?thesis by simp
  next
    case False
    with fun_cong [OF Cons.prems(3), of k'] x ys show ?thesis
      by simp
  qed
  then have "map_of xs = map_of ys'"
    by (simp add: fun_eq_iff)
  with Cons.IH [of ys'] Cons.prems(1,2) x ys vw show ?case
    by simp
qed

lemma merge_dict_no_mapping_defaults:
  assumes "map fst a = map fst b" and "distinct (map fst b)"
    and "\<forall>(k, v) \<in> set a. \<forall>x. v \<noteq> PDict x"
  shows "merge_dict a b = b"
proof (rule alist_eqI)
  have sub: "fst ` set b \<subseteq> fst ` set a"
    using assms(1) by (metis image_set order_refl)
  show "map fst (merge_dict a b) = map fst b"
    using keys_merge_dict [OF sub] assms(1) by simp
  then show "distinct (map fst (merge_dict a b))"
    using assms(2) by simp
  show "map_of (merge_dict a b) = map_of b"
  proof
    fix k
    have no_dict: "map_of a k \<noteq> Some (PDict x)" for x
      using assms(3) by (auto dest: map_of_SomeD)
    have dom: "map_of b k = None \<Longrightarrow> map_of a k = None"
      using assms(1) by (metis map_of_eq_None_iff image_set)
    show "map_of (merge_dict a b) k = map_of b k"
      using no_dict dom
      by (auto simp add: map_of_merge_dict [OF assms(2)] split: option.splits pyval.splits)
  qed
qed

text \<open>The round trip of a nested class in the documented pattern.\<close>

lemma nested_super_fields:
  "init_body (nested_super m n cn C ccls cd ps) = bind_keywords ((cn, Some cd) # ps)"
  "get_config_body (nested_super m n cn C ccls cd ps) = nested_get_config cn C ccls (map fst ps)"
  "from_config_override (nested_super m n cn C ccls cd ps) = None"
  "default_config_override (nested_super m n cn C ccls cd ps) =
     Some (nested_default_config
       ((echo_class m n ((cn, Some cd) # ps))
          \<lparr>get_config_body := nested_get_config cn C ccls (map fst ps)\<rparr>) cn ccls)"
  by (simp_all add: nested_super_def echo_class_def Let_def)

lemma nested_class_fields:
  "get_config_body (nested_class X m n cn C ccls cd ps) = nested_get_config cn C ccls (map fst ps)"
  "from_config_override (nested_class X m n cn C ccls cd ps) =
     Some (documented_from_config X (nested_super m n cn C ccls cd ps) cn C ccls)"
  "call_get_default_config (nested_class X m n cn C ccls cd ps) =
     call_get_default_config (nested_super m n cn C ccls cd ps)"
  by (simp_all add: nested_class_def nested_super_fields call_get_default_config_def)

lemma nested_default_config_shape:
  assumes "distinct (''self'' # cn # map fst ps)"
    and "call_get_default_config ccls = Inr (PDict cdflt)"
  shows "call_get_default_config (nested_super m n cn C ccls cd ps) =
     Inr (PDict ((cn, PDict cdflt) #
            map (\<lambda>(k, d). (k, case d of None \<Rightarrow> PNone | Some v \<Rightarrow> v)) ps))"
proof -
  let ?declared = "(echo_class m n ((cn, Some cd) # ps))
          \<lparr>get_config_body := nested_get_config cn C ccls (map fst ps)\<rparr>"
  have "get_default_config ?declared = get_default_config (echo_class m n ((cn, Some cd) # ps))"
    by (simp add: get_default_config_def)
  also have "\<dots> = (cn, cd) # map (\<lambda>(k, d). (k, case d of None \<Rightarrow> PNone | Some v \<Rightarrow> v)) ps"
    using echo_class_default_config [of "(cn, Some cd) # ps" m n] assms(1) by simp
  finally show ?thesis
    using assms(2)
    by (simp add: call_get_default_config_def nested_super_fields nested_default_config_def)
qed

lemma nested_get_config_instance:
  assumes "get_config_body ccls cattrs = Inr (PDict cattrs)"
    and "distinct (cn # map fst rest)"
  shows "nested_get_config cn C ccls (map fst rest) ((cn, PInst i C cattrs) # rest) =
     Inr (PDict ((cn, PDict cattrs) # rest))"
proof -
  have "read_attrs (map fst rest) ((cn, PInst i C cattrs) # rest) = Inr rest"
    using assms(2) by (intro read_attrs_same_keys) auto
  then show ?thesis
    using assms(1) by (simp add: nested_get_config_def)
qed

lemma merge_dict_child_replaced:
  assumes "map fst dflt = cn # map fst rest" and "distinct (cn # map fst rest)"
    and "map_of dflt cn = Some (PDict cdflt)"
    and "merge_dict dflt ((cn, PDict cattrs) # rest) = (cn, PDict cattrs) # rest"
  shows "merge_dict dflt ((cn, PInst i C a) # rest) = (cn, PInst i C a) # rest"
proof (rule alist_eqI)
  let ?kw = "(cn, PInst i C a) # rest" and ?c1 = "(cn, PDict cattrs) # rest"
  have sub: "fst ` set ?kw \<subseteq> fst ` set dflt"
    using assms(1) by (metis image_set list.simps(9) fst_conv order_refl)
  show keys: "map fst (merge_dict dflt ?kw) = map fst ?kw"
    using keys_merge_dict [OF sub] assms(1) by simp
  show "distinct (map fst (merge_dict dflt ?kw))"
    using keys assms(2) by simp
  have dkw: "distinct (map fst ?kw)" and dc1: "distinct (map fst ?c1)"
    using assms(2) by simp_all
  show "map_of (merge_dict dflt ?kw) = map_of ?kw"
  proof
    fix k
    show "map_of (merge_dict dflt ?kw) k = map_of ?kw k"
    proof (cases "k = cn")
      case True
      then show ?thesis
        using assms(3) by (subst map_of_merge_dict [OF dkw]) simp
    next
      case False
      have "map_of (merge_dict dflt ?c1) k = map_of ?c1 k"
        by (simp only: assms(4))
      then have c1: "(case map_of rest k of
            None \<Rightarrow> map_of dflt k
          | Some v \<Rightarrow>
              Some (case (map_of dflt k, v) of
                      (Some (PDict x), PDict y) \<Rightarrow> PDict (merge_dict x y)
                    | _ \<Rightarrow> v)) = map_of rest k"
        using False by (subst (asm) map_of_merge_dict [OF dc1]) simp
      show ?thesis
        using False c1 by (subst map_of_merge_dict [OF dkw]) simp
    qed
  qed
qed

lemma nested_class_from_config:
  assumes child: "ccls = echo_class cm cnm cps"
    and cls: "cls = nested_class X m n cn C ccls cd ps"
    and names: "distinct (''self'' # cn # map fst ps)"
    and cnames: "distinct (''self'' # map fst cps)"
    and ckeys: "map fst cattrs = map fst cps"
    and keys: "map fst rest = map fst ps"
    and dflt: "call_get_default_config cls = Inr (PDict dflt)"
    and merge: "merge_dict dflt ((cn, PDict cattrs) # rest) = (cn, PDict cattrs) # rest"
  shows "\<exists>w'. call_from_config X cls (PDict ((cn, PDict cattrs) # rest)) [] w =
     (Inr (PInst (Suc (next_oid w)) X ((cn, PInst (next_oid w) C cattrs) # rest),
           PDict ((cn, PDict cattrs) # rest)), w')"
proof -
  let ?c1 = "(cn, PDict cattrs) # rest"
  let ?super = "nested_super m n cn C ccls cd ps"
  let ?w1 = "log_event (FromConfigCall X (PDict ?c1) []) w"
  let ?child = "PInst (next_oid w) C cattrs"
  let ?kw = "(cn, ?child) # rest"
  have dc: "distinct (map fst cattrs)"
    using cnames ckeys by simp
  have dk: "distinct (cn # map fst rest)"
    using names keys by simp
  have cgd: "call_get_default_config ccls = Inr (PDict (get_default_config ccls))"
    by (simp add: call_get_default_config_def child echo_class_def)
  have sdflt: "call_get_default_config ?super = Inr (PDict dflt)"
    using dflt by (simp add: cls nested_class_fields)
  with nested_default_config_shape [OF names cgd, of m n C cd]
  have shape: "dflt = (cn, PDict (get_default_config ccls)) #
      map (\<lambda>(k, d). (k, case d of None \<Rightarrow> PNone | Some v \<Rightarrow> v)) ps"
    by simp
  have dkeys: "map fst dflt = cn # map fst rest"
    by (simp add: shape keys comp_def case_prod_beta)
  have dcn: "map_of dflt cn = Some (PDict (get_default_config ccls))"
    by (simp add: shape)
  have "map_of (merge_dict dflt ?c1) cn = map_of ?c1 cn"
    by (simp only: merge)
  then have cmerge: "merge_dict (get_default_config ccls) cattrs = cattrs"
    using dk dcn by (subst (asm) map_of_merge_dict) simp_all
  have child_built: "call_from_config C ccls (PDict cattrs) [] ?w1 =
      (Inr (?child, PDict cattrs),
       \<lparr>next_oid = Suc (next_oid w),
        trace = trace ?w1 @ [FromConfigCall C (PDict cattrs) [], InitCall C cattrs]\<rparr>)"
    using echo_class_from_config [OF child dc ckeys cmerge, of C ?w1]
    by (simp add: log_event_def)
  let ?w2 = "\<lparr>next_oid = Suc (next_oid w),
        trace = trace ?w1 @ [FromConfigCall C (PDict cattrs) [], InitCall C cattrs]\<rparr>"
  have kw_merge: "merge_dict dflt ?kw = ?kw"
    using merge_dict_child_replaced [OF dkeys dk dcn merge] .
  have bind: "bind_keywords ((cn, Some cd) # ps) ?kw = Inr ?kw"
    using dk keys by (intro bind_keywords_same_keys) simp_all
  have super_built: "from_config_body X ?super (PDict ?kw) True ?w2 =
      (Inr (PInst (Suc (next_oid w)) X ?kw, PDict ?kw),
       \<lparr>next_oid = Suc (Suc (next_oid w)), trace = trace ?w2 @ [InitCall X ?kw]\<rparr>)"
    by (simp add: from_config_body_def sdflt kw_merge construct_def log_event_def
        nested_super_fields bind del: merge_dict.simps)
  have "call_from_config X cls (PDict ?c1) [] w =
      (Inr (PInst (Suc (next_oid w)) X ?kw, PDict ?c1),
       \<lparr>next_oid = Suc (Suc (next_oid w)), trace = trace ?w2 @ [InitCall X ?kw]\<rparr>)"
    unfolding call_from_config_def Let_def
    by (simp add: cls nested_class_fields documented_from_config_body_def sdflt merge
        child_built super_built del: merge_dict.simps)
  then show ?thesis by blast
qed

lemma nested_class_round_trip:
  assumes child: "CT C = echo_class cm cnm cps"
    and cls: "CT X = nested_class X m n cn C (CT C) cd ps"
    and names: "distinct (''self'' # cn # map fst ps)"
    and cnames: "distinct (''self'' # map fst cps)"
    and ckeys: "map fst cattrs = map fst cps"
    and keys: "map fst rest = map fst ps"
    and dflt: "call_get_default_config (CT X) = Inr (PDict dflt)"
    and merge: "merge_dict dflt ((cn, PDict cattrs) # rest) = (cn, PDict cattrs) # rest"
  shows "round_trip CT (PInst oid X ((cn, PInst coid C cattrs) # rest)) w =
     Inr (PDict ((cn, PDict cattrs) # rest), PDict ((cn, PDict cattrs) # rest),
          PDict ((cn, PDict cattrs) # rest))"
proof -
  let ?c1 = "PDict ((cn, PDict cattrs) # rest)"
  have dc: "distinct (map fst cattrs)"
    using cnames ckeys by simp
  have dk: "distinct (cn # map fst rest)"
    using names keys by simp
  have cgc: "get_config_body (CT C) cattrs = Inr (PDict cattrs)"
    using echo_get_config_same_keys [OF dc] ckeys by (simp add: child echo_class_def)
  have gc: "get_config_body (CT X) ((cn, PInst i C cattrs) # rest) = Inr ?c1" for i
    using nested_get_config_instance [OF cgc dk, of C i] keys
    by (simp add: cls nested_class_fields)
  have fc: "\<exists>w'. call_from_config X (CT X) ?c1 [] v =
     (Inr (PInst (Suc (next_oid v)) X ((cn, PInst (next_oid v) C cattrs) # rest), ?c1), w')" for v
    using nested_class_from_config [OF child cls names cnames ckeys keys dflt merge] .
  obtain w1 where fc1: "call_from_config X (CT X) ?c1 [] w =
     (Inr (PInst (Suc (next_oid w)) X ((cn, PInst (next_oid w) C cattrs) # rest), ?c1), w1)"
    using fc [of w] by blast
  obtain w2 where fc2: "call_from_config X (CT X) ?c1 [] w1 =
     (Inr (PInst (Suc (next_oid w1)) X ((cn, PInst (next_oid w1) C cattrs) # rest), ?c1), w2)"
    using fc [of w1] by blast
  show ?thesis
    by (simp add: round_trip_def gc fc1 fc2)
qed

lemma documented_classes_simps:
  "documented_classes T1_id = T1_cls"
  "documented_classes T2_id = T2_documented_cls"
proof -
  have "T1_id \<noteq> T2_id"
    by (simp add: T1_id_def T2_id_def)
  then show "documented_classes T1_id = T1_cls"
    by (simp add: documented_classes_def tests_classes_simps)
  show "documented_classes T2_id = T2_documented_cls"
    by (simp add: documented_classes_def)
qed

text \<open>
  C1, as the code has it. Let \<open>x\<close> be an instance of a class written as the interface
  documents: either a class in the pattern of \<^verbatim>\<open>T1\<close> (the class methods are those of
  \<^verbatim>\<open>Configurable\<close>, the constructor stores each named parameter and \<^verbatim>\<open>get_config\<close>
  returns them), or, the nested case, a class in the pattern of \<^verbatim>\<open>T2\<close> whose
  \<^verbatim>\<open>from_config\<close> is the one of the docstring (shallow copy, merge, the nested instance
  built from the embedded configuration by the \<^verbatim>\<open>from_config\<close> of its class, call of
  \<^verbatim>\<open>super().from_config\<close>) and whose child is an instance of a class in the pattern of
  \<^verbatim>\<open>T1\<close>. When merging the class's default configuration under the configuration \<open>c1\<close>
  of \<open>x\<close> gives \<open>c1\<close> back, the chain returns: the configuration \<open>c2\<close> of the instance
  built from \<open>c1\<close> is \<open>c1\<close>, the configuration \<open>c3\<close> of the instance built from \<open>c2\<close>
  is \<open>c2\<close>, the dictionaries handed to \<^verbatim>\<open>from_config\<close> are left as they were, and so
  \<open>c1 == c2\<close> and \<open>c3 == c2\<close>.
\<close>

theorem round_trip_documented_patterns:
  "(CT X = echo_class m n ps \<and> distinct (''self'' # map fst ps) \<and>
    map fst attrs = map fst ps \<and>
    merge_dict (get_default_config (CT X)) attrs = attrs \<longrightarrow>
      (\<exists>c1 c2 c3. round_trip CT (PInst oid X attrs) w = Inr (c1, c2, c3) \<and>
         c1 = PDict attrs \<and> c2 = c1 \<and> c3 = c2 \<and> py_eq c1 c2 \<and> py_eq c3 c2)) \<and>
   (CT C = echo_class cm cnm cps \<and> CT N = nested_class N nm nn cn C (CT C) cd nps \<and>
    distinct (''self'' # cn # map fst nps) \<and> distinct (''self'' # map fst cps) \<and>
    map fst cattrs = map fst cps \<and> map fst rest = map fst nps \<and>
    call_get_default_config (CT N) = Inr (PDict dflt) \<and>
    merge_dict dflt ((cn, PDict cattrs) # rest) = (cn, PDict cattrs) # rest \<longrightarrow>
      (\<exists>c1 c2 c3.
         round_trip CT (PInst noid N ((cn, PInst coid C cattrs) # rest)) w = Inr (c1, c2, c3) \<and>
         c1 = PDict ((cn, PDict cattrs) # rest) \<and> c2 = c1 \<and> c3 = c2 \<and>
         py_eq c1 c2 \<and> py_eq c3 c2))"
proof (intro conjI impI)
  assume "CT X = echo_class m n ps \<and> distinct (''self'' # map fst ps) \<and>
    map fst attrs = map fst ps \<and> merge_dict (get_default_config (CT X)) attrs = attrs"
  then show "\<exists>c1 c2 c3. round_trip CT (PInst oid X attrs) w = Inr (c1, c2, c3) \<and>
         c1 = PDict attrs \<and> c2 = c1 \<and> c3 = c2 \<and> py_eq c1 c2 \<and> py_eq c3 c2"
    using echo_class_round_trip [of CT X m n ps attrs oid w] by blast
next
  assume h: "CT C = echo_class cm cnm cps \<and> CT N = nested_class N nm nn cn C (CT C) cd nps \<and>
    distinct (''self'' # cn # map fst nps) \<and> distinct (''self'' # map fst cps) \<and>
    map fst cattrs = map fst cps \<and> map fst rest = map fst nps \<and>
    call_get_default_config (CT N) = Inr (PDict dflt) \<and>
    merge_dict dflt ((cn, PDict cattrs) # rest) = (cn, PDict cattrs) # rest"
  have "round_trip CT (PInst noid N ((cn, PInst coid C cattrs) # rest)) w =
     Inr (PDict ((cn, PDict cattrs) # rest), PDict ((cn, PDict cattrs) # rest),
          PDict ((cn, PDict cattrs) # rest))"
    using h by (intro nested_class_round_trip) blast+
  then show "\<exists>c1 c2 c3.
         round_trip CT (PInst noid N ((cn, PInst coid C cattrs) # rest)) w = Inr (c1, c2, c3) \<and>
         c1 = PDict ((cn, PDict cattrs) # rest) \<and> c2 = c1 \<and> c3 = c2 \<and>
         py_eq c1 c2 \<and> py_eq c3 c2"
    by (simp add: py_eq_refl del: py_eq.simps)
qed

text \<open>\<^verbatim>\<open>T1(foo=8)\<close>, and \<^verbatim>\<open>T2(T1(foo=12, bar='OK'), 0.0001, 'not default')\<close> with the
  \<^verbatim>\<open>from_config\<close> of the docstring.\<close>

theorem round_trip_documented_patterns_witness:
  "(\<exists>c1 c2 c3.
      round_trip documented_classes (PInst 7 T1_id [(''foo'', PInt 8), (''bar'', PStr ''baz'')])
        tests_world = Inr (c1, c2, c3) \<and>
      c1 = PDict [(''foo'', PInt 8), (''bar'', PStr ''baz'')] \<and> c2 = c1 \<and> c3 = c2 \<and>
      py_eq c1 c2 \<and> py_eq c3 c2) \<and>
   (\<exists>c1 c2 c3.
      round_trip documented_classes
        (PInst 8 T2_id
           ((''child'', PInst 7 T1_id [(''foo'', PInt 12), (''bar'', PStr ''OK'')]) #
            [(''alpha'', PFloat double_0_0001), (''beta'', PStr ''not default'')]))
        tests_world = Inr (c1, c2, c3) \<and>
      c1 = PDict ((''child'', PDict [(''foo'', PInt 12), (''bar'', PStr ''OK'')]) #
                  [(''alpha'', PFloat double_0_0001), (''beta'', PStr ''not default'')]) \<and>
      c2 = c1 \<and> c3 = c2 \<and> py_eq c1 c2 \<and> py_eq c3 c2)"
proof -
  have t1: "documented_classes T1_id = echo_class tests_module ''T1''
      [(''foo'', Some (PInt 1)), (''bar'', Some (PStr ''baz''))]"
    by (simp add: documented_classes_simps T1_cls_def)
  have t2: "documented_classes T2_id =
      nested_class T2_id tests_module ''T2'' ''child'' T1_id (documented_classes T1_id)
        T1_default_instance
        [(''alpha'', Some (PFloat double_0_0001)), (''beta'', Some (PStr ''default''))]"
    by (simp add: documented_classes_simps T2_documented_cls_def)
  have d1: "get_default_config (documented_classes T1_id) =
      [(''foo'', PInt 1), (''bar'', PStr ''baz'')]"
    using tests_default_configs(1)
    by (simp add: documented_classes_simps call_get_default_config_def T1_cls_def echo_class_def)
  have d2: "call_get_default_config (documented_classes T2_id) =
      Inr (PDict [(''child'', PDict [(''foo'', PInt 1), (''bar'', PStr ''baz'')]),
                  (''alpha'', PFloat double_0_0001), (''beta'', PStr ''default'')])"
    using nested_default_config_shape [of "''child''"
        "[(''alpha'', Some (PFloat double_0_0001)), (''beta'', Some (PStr ''default''))]"
        T1_cls "[(''foo'', PInt 1), (''bar'', PStr ''baz'')]"
        tests_module "''T2''" T1_id T1_default_instance]
      tests_default_configs(1)
    by (simp add: documented_classes_simps T2_documented_cls_def nested_class_fields)
  show ?thesis
    using round_trip_documented_patterns
      [of documented_classes T1_id tests_module "''T1''"
        "[(''foo'', Some (PInt 1)), (''bar'', Some (PStr ''baz''))]"
        "[(''foo'', PInt 8), (''bar'', PStr ''baz'')]" 7 tests_world
        T1_id tests_module "''T1''" "[(''foo'', Some (PInt 1)), (''bar'', Some (PStr ''baz''))]"
        T2_id tests_module "''T2''" "''child''" T1_default_instance
        "[(''alpha'', Some (PFloat double_0_0001)), (''beta'', Some (PStr ''default''))]"
        "[(''foo'', PInt 12), (''bar'', PStr ''OK'')]"
        "[(''alpha'', PFloat double_0_0001), (''beta'', PStr ''not default'')]"
        "[(''child'', PDict [(''foo'', PInt 1), (''bar'', PStr ''baz'')]),
          (''alpha'', PFloat double_0_0001), (''beta'', PStr ''default'')]"
        8 7]
      t1 t2 d1 d2
    by (simp del: py_eq.simps)
qed

text \<open>
  C1 as stated fails on a class in the pattern of \<^verbatim>\<open>T1\<close> with a mapping as default.
  For \<^verbatim>\<open>__init__(self, opts={'x': 1})\<close> and the instance built with \<^verbatim>\<open>opts={'y': 2}\<close>,
  \<open>c1\<close> is \<^verbatim>\<open>{'opts': {'y': 2}}\<close>; \<^verbatim>\<open>from_config\<close> merges it on top of the default, so
  \<open>c2\<close> is \<^verbatim>\<open>{'opts': {'x': 1, 'y': 2}}\<close>, and \<open>c1 == c2\<close> is false.
\<close>

theorem round_trip_mapping_default:
  "configurable (tests_classes Opts_id) \<and>
   round_trip tests_classes (PInst 7 Opts_id [(''opts'', PDict [(''y'', PInt 2)])]) tests_world =
     Inr (PDict [(''opts'', PDict [(''y'', PInt 2)])],
          PDict [(''opts'', PDict [(''x'', PInt 1), (''y'', PInt 2)])],
          PDict [(''opts'', PDict [(''x'', PInt 1), (''y'', PInt 2)])]) \<and>
   \<not> py_eq (PDict [(''opts'', PDict [(''y'', PInt 2)])])
           (PDict [(''opts'', PDict [(''x'', PInt 1), (''y'', PInt 2)])])"
  by (simp add: round_trip_def tests_classes_simps Opts_fields call_from_config_def
      from_config_body_def construct_def log_event_def bind_keywords_def echo_get_config_def
      tests_world_def)

text \<open>
  The nested class \<^verbatim>\<open>T2\<close> of the tests. Its \<^verbatim>\<open>from_config\<close> assigns the child it builds
  into the dictionary it is given, without the shallow copy the docstring of
  \<^verbatim>\<open>Configurable.from_config\<close> prescribes. After the chain, \<open>c1\<close> and \<open>c2\<close> hold two
  different instances of \<^verbatim>\<open>T1\<close> under \<^verbatim>\<open>child\<close> and \<open>c3\<close> holds a dictionary there: neither
  \<open>c1 == c2\<close> nor \<open>c3 == c2\<close> holds on the dictionaries as the calls leave them.
\<close>

lemma T2_round_trip:
  "round_trip tests_classes
     (PInst 7 T2_id [(''child'', T1_default_instance), (''alpha'', PFloat double_0_0001),
                     (''beta'', PStr ''default'')]) tests_world =
     Inr (PDict [(''child'', PInst 1 T1_id [(''foo'', PInt 1), (''bar'', PStr ''baz'')]),
                 (''alpha'', PFloat double_0_0001), (''beta'', PStr ''default'')],
          PDict [(''child'', PInst 3 T1_id [(''foo'', PInt 1), (''bar'', PStr ''baz'')]),
                 (''alpha'', PFloat double_0_0001), (''beta'', PStr ''default'')],
          PDict [(''child'', PDict [(''foo'', PInt 1), (''bar'', PStr ''baz'')]),
                 (''alpha'', PFloat double_0_0001), (''beta'', PStr ''default'')])"
  by (simp add: round_trip_def tests_classes_simps T2_fields T1_fields T1_get_config_body
      T2_get_config_def T2_from_config_body_def T1_default_instance_def T2_params_def
      call_from_config_def from_config_body_def construct_def log_event_def bind_keywords_def
      echo_get_config_def tests_default_configs tests_world_def)

lemma T2_round_trip_unequal:
  "\<not> py_eq
       (PDict [(''child'', PInst 1 T1_id [(''foo'', PInt 1), (''bar'', PStr ''baz'')]),
               (''alpha'', PFloat double_0_0001), (''beta'', PStr ''default'')])
       (PDict [(''child'', PInst 3 T1_id [(''foo'', PInt 1), (''bar'', PStr ''baz'')]),
               (''alpha'', PFloat double_0_0001), (''beta'', PStr ''default'')]) \<and>
   \<not> py_eq
       (PDict [(''child'', PDict [(''foo'', PInt 1), (''bar'', PStr ''baz'')]),
               (''alpha'', PFloat double_0_0001), (''beta'', PStr ''default'')])
       (PDict [(''child'', PInst 3 T1_id [(''foo'', PInt 1), (''bar'', PStr ''baz'')]),
               (''alpha'', PFloat double_0_0001), (''beta'', PStr ''default'')])"
  by simp

end
